theory Spec2Isabelle
  imports Main "HOL-Library.Sublist"
begin

section \<open>JavaScript strings\<close>

text \<open>
  A JavaScript string is a sequence of UTF-16 code units, and \<open>length\<close>, \<open>slice\<close>,
  \<open>includes\<close> and the regular expressions of the source (none has the \<open>u\<close> flag) all
  count code units. A code unit is modelled as a natural number, a string as a list of
  them. \<open>js\<close> turns an ASCII literal into such a string.
\<close>

type_synonym jschar = nat
type_synonym jsstring = "nat list"

named_theorems js_eval \<open>equations that evaluate the character classes and literals\<close>

definition ch :: "char \<Rightarrow> jschar" where
  "ch c = of_char c"

definition js :: "string \<Rightarrow> jsstring" where
  "js s = map of_char s"

definition oneOf :: "jsstring \<Rightarrow> jschar \<Rightarrow> bool" where
  "oneOf cs c = (c \<in> set cs)"

definition isDigit :: "jschar \<Rightarrow> bool" where
  "isDigit c = (48 \<le> c \<and> c \<le> 57)"

definition isUpper :: "jschar \<Rightarrow> bool" where
  "isUpper c = (65 \<le> c \<and> c \<le> 90)"

definition isLower :: "jschar \<Rightarrow> bool" where
  "isLower c = (97 \<le> c \<and> c \<le> 122)"

definition isAlpha :: "jschar \<Rightarrow> bool" where
  "isAlpha c = (isUpper c \<or> isLower c)"

definition isAlnum :: "jschar \<Rightarrow> bool" where
  "isAlnum c = (isAlpha c \<or> isDigit c)"

text \<open>\<open>\w\<close> is \<open>[A-Za-z0-9_]\<close>.\<close>

definition isWord :: "jschar \<Rightarrow> bool" where
  "isWord c = (isAlnum c \<or> c = 95)"

text \<open>The line terminators LF, CR, U+2028 and U+2029: what \<open>.\<close> does not match.\<close>

definition isLineTerminator :: "jschar \<Rightarrow> bool" where
  "isLineTerminator c = (c = 10 \<or> c = 13 \<or> c = 8232 \<or> c = 8233)"

definition isDot :: "jschar \<Rightarrow> bool" where
  "isDot c = (\<not> isLineTerminator c)"

text \<open>
  \<open>\s\<close>, and what \<open>trim\<close> and \<open>trimEnd\<close> strip: the white space of ECMAScript
  (TAB, VT, FF, SP, NBSP, U+1680, U+2000 to U+200A, U+202F, U+205F, U+3000, U+FEFF) and the
  line terminators.
\<close>

definition isSpace :: "jschar \<Rightarrow> bool" where
  "isSpace c = (c = 9 \<or> c = 10 \<or> c = 11 \<or> c = 12 \<or> c = 13 \<or> c = 32 \<or> c = 160
     \<or> c = 5760 \<or> (8192 \<le> c \<and> c \<le> 8202) \<or> c = 8232 \<or> c = 8233 \<or> c = 8239
     \<or> c = 8287 \<or> c = 12288 \<or> c = 65279)"

definition nonSpace :: "jschar \<Rightarrow> bool" where
  "nonSpace c = (\<not> isSpace c)"

lemmas [js_eval] = ch_def js_def oneOf_def isDigit_def isUpper_def isLower_def isAlpha_def
  isAlnum_def isWord_def isLineTerminator_def isDot_def isSpace_def nonSpace_def

definition trimStart :: "jsstring \<Rightarrow> jsstring" where
  "trimStart s = dropWhile isSpace s"

definition trimEnd :: "jsstring \<Rightarrow> jsstring" where
  "trimEnd s = rev (dropWhile isSpace (rev s))"

definition trim :: "jsstring \<Rightarrow> jsstring" where
  "trim s = trimStart (trimEnd s)"

text \<open>\<open>s.includes(t)\<close>: \<open>t\<close> occurs in \<open>s\<close> as a contiguous substring.\<close>

fun includes_str :: "jsstring \<Rightarrow> jsstring \<Rightarrow> bool" where
  "includes_str [] t = (t = [])"
| "includes_str (c # cs) t = (prefix t (c # cs) \<or> includes_str cs t)"

text \<open>\<open>s.split('\n')\<close> and \<open>lines.join('\n')\<close>.\<close>

fun split_nl :: "jsstring \<Rightarrow> jsstring list" where
  "split_nl [] = [[]]"
| "split_nl (c # cs) =
     (let rest = split_nl cs
      in if c = 10 then [] # rest else (c # hd rest) # tl rest)"

fun join_nl :: "jsstring list \<Rightarrow> jsstring" where
  "join_nl [] = []"
| "join_nl [l] = l"
| "join_nl (l # ls) = l @ 10 # join_nl ls"

lemmas [js_eval] = trimStart_def trimEnd_def trim_def

section \<open>Regular expressions\<close>

text \<open>
  The regular expressions of the source are built from literals, character classes,
  greedy repetition of a class, options, alternatives, the end anchor and one negative
  lookahead. \<open>rx_match r s\<close> tries \<open>r\<close> at the start of \<open>s\<close> and lists what is left of
  \<open>s\<close> after each way of matching, in the order in which a backtracking matcher tries
  them (greedy first): the head of the list is what the engine takes when nothing
  after it fails, and the later entries are what it backtracks to.
\<close>

datatype rx =
    Eps
  | Cls "jschar \<Rightarrow> bool"
  | Lit jsstring
  | Times nat "jschar \<Rightarrow> bool"
  | Star "jschar \<Rightarrow> bool"
  | Plus "jschar \<Rightarrow> bool"
  | Opt rx
  | Seq rx rx
  | Alt rx rx
  | AtEnd
  | NotAhead rx

fun rx_match :: "rx \<Rightarrow> jsstring \<Rightarrow> jsstring list" where
  "rx_match Eps s = [s]"
| "rx_match (Cls p) s = (case s of [] \<Rightarrow> [] | c # cs \<Rightarrow> if p c then [cs] else [])"
| "rx_match (Lit l) s = (if prefix l s then [drop (length l) s] else [])"
| "rx_match (Times n p) s =
     (if n \<le> length s \<and> list_all p (take n s) then [drop n s] else [])"
| "rx_match (Star p) s = map (\<lambda>k. drop k s) (rev [0..<Suc (length (takeWhile p s))])"
| "rx_match (Plus p) s = map (\<lambda>k. drop k s) (rev [1..<Suc (length (takeWhile p s))])"
| "rx_match (Opt r) s = rx_match r s @ [s]"
| "rx_match (Seq a b) s = concat (map (rx_match b) (rx_match a s))"
| "rx_match (Alt a b) s = rx_match a s @ rx_match b s"
| "rx_match AtEnd s = (if s = [] then [s] else [])"
| "rx_match (NotAhead r) s = (if rx_match r s = [] then [s] else [])"

fun seqs :: "rx list \<Rightarrow> rx" where
  "seqs [] = Eps"
| "seqs [r] = r"
| "seqs (r # rs) = Seq r (seqs rs)"

text \<open>\<open>s.match(/^r/)\<close> as a truth value: the pattern is tried at index 0 only.\<close>

definition rx_test :: "rx \<Rightarrow> jsstring \<Rightarrow> bool" where
  "rx_test r s = (rx_match r s \<noteq> [])"

text \<open>
  \<open>s.match(r)\<close> for a pattern without anchor: the leftmost index at which \<open>r\<close> matches.
  The result is the suffix of \<open>s\<close> that starts at the match, and what is left after it.
\<close>

fun rx_exec :: "rx \<Rightarrow> jsstring \<Rightarrow> (jsstring \<times> jsstring) option" where
  "rx_exec r [] = (case rx_match r [] of [] \<Rightarrow> None | rest # _ \<Rightarrow> Some ([], rest))"
| "rx_exec r (c # cs) =
     (case rx_match r (c # cs) of [] \<Rightarrow> rx_exec r cs | rest # _ \<Rightarrow> Some (c # cs, rest))"

text \<open>
  \<open>s.replace(/r/g, rep)\<close>: every match, leftmost first and without overlap, is replaced
  by \<open>rep\<close>. After an empty match the engine copies one character and goes on.
\<close>

function replaceAll :: "rx \<Rightarrow> jsstring \<Rightarrow> jsstring \<Rightarrow> jsstring" where
  "replaceAll r rep [] = (if rx_match r [] = [] then [] else rep)"
| "replaceAll r rep (c # cs) =
     (case rx_match r (c # cs) of
        [] \<Rightarrow> c # replaceAll r rep cs
      | rest # _ \<Rightarrow>
          if length rest \<le> length cs
          then rep @ replaceAll r rep (drop (length cs - length rest) cs)
          else rep @ c # replaceAll r rep cs)"
  by pat_completeness auto
termination
  by (relation "measure (\<lambda>(r, rep, s). length s)") auto

section \<open>Output Cleaner\<close>

subsection \<open>cleanOutput\<close>

definition digitSemi :: "jschar \<Rightarrow> bool" where
  "digitSemi c = (isDigit c \<or> c = ch CHR '';'')"

text \<open>
  ESC is 27, BEL is 7, backspace is 8, CR is 13, LF is 10, the backslash is 92. The
  replacements of the source, in its order:
  \<^enum> \<^verbatim>\<open>/\x1b\[[0-9;]*m/g\<close>
  \<^enum> \<^verbatim>\<open>/\x1b\[[0-9;]*[ABCDHfJK]/g\<close>
  \<^enum> \<^verbatim>\<open>/\x1b\][^\x07\x1b]*(\x07|\x1b\\)/g\<close>
  \<^enum> \<^verbatim>\<open>/\x1b[()[\]#+.][A-Za-z0-9]?/g\<close>
  \<^enum> \<^verbatim>\<open>/\x1b[><=]/g\<close>
  \<^enum> \<^verbatim>\<open>/\x1b\[[0-9;]*[a-zA-Z]/g\<close>
  \<^enum> \<^verbatim>\<open>/\[\?[0-9]+[hl]/g\<close>
  \<^enum> \<^verbatim>\<open>/\?[0-9]+[hl]/g\<close>
  \<^enum> \<^verbatim>\<open>/\r\n/g\<close>, replaced by a line feed
  \<^enum> \<^verbatim>\<open>/\r/g\<close>, replaced by a line feed
  \<^enum> \<^verbatim>\<open>/[\x08]/g\<close>
  \<^enum> \<^verbatim>\<open>/[\x07]/g\<close>
  \<^enum> \<^verbatim>\<open>/\x1b(?!\[)/g\<close>
  \<^enum> \<^verbatim>\<open>/\n{3,}/g\<close>, replaced by two line feeds
  \<^enum> every line right-trimmed, and the whole trimmed at the end.
\<close>

definition cleanOutput :: "jsstring \<Rightarrow> jsstring" where
  "cleanOutput output =
    (let
       result = replaceAll (seqs [Lit [27, ch CHR ''[''], Star digitSemi, Lit (js ''m'')]) [] output;
       result = replaceAll (seqs [Lit [27, ch CHR ''[''], Star digitSemi,
                  Cls (oneOf (js ''ABCDHfJK''))]) [] result;
       result = replaceAll (seqs [Lit [27, ch CHR '']''], Star (\<lambda>c. c \<noteq> 7 \<and> c \<noteq> 27),
                  Alt (Lit [7]) (Lit [27, 92])]) [] result;
       result = replaceAll (seqs [Lit [27], Cls (oneOf (js ''()[]#+.'')), Opt (Cls isAlnum)])
                  [] result;
       result = replaceAll (seqs [Lit [27], Cls (oneOf (js ''><=''))]) [] result;
       result = replaceAll (seqs [Lit [27, ch CHR ''[''], Star digitSemi, Cls isAlpha]) [] result;
       result = replaceAll (seqs [Lit (js ''[?''), Plus isDigit, Cls (oneOf (js ''hl''))]) [] result;
       result = replaceAll (seqs [Lit (js ''?''), Plus isDigit, Cls (oneOf (js ''hl''))]) [] result;
       result = replaceAll (Lit [13, 10]) [10] result;
       result = replaceAll (Lit [13]) [10] result;
       result = replaceAll (Cls (\<lambda>c. c = 8)) [] result;
       result = replaceAll (Cls (\<lambda>c. c = 7)) [] result;
       result = replaceAll (seqs [Lit [27], NotAhead (Lit (js ''[''))]) [] result;
       result = replaceAll (seqs [Times 3 (\<lambda>c. c = 10), Star (\<lambda>c. c = 10)]) [10, 10] result;
       result = join_nl (map trimEnd (split_nl result))
     in trim result)"

subsection \<open>cleanCommandEcho\<close>

text \<open>
  The filter callback of \<open>cleanCommandEcho\<close> reads and sets the flag
  \<open>commandEchoSkipped\<close>; the flag is threaded through the lines.
\<close>

fun echoFilter :: "jsstring \<Rightarrow> bool \<Rightarrow> jsstring list \<Rightarrow> jsstring list" where
  "echoFilter commandFirstWord commandEchoSkipped [] = []"
| "echoFilter commandFirstWord commandEchoSkipped (line # lines) =
     (let trimmed = trim line in
      if trimmed = [] then echoFilter commandFirstWord commandEchoSkipped lines
      else if \<not> commandEchoSkipped \<and> commandFirstWord \<noteq> [] \<and> includes_str trimmed commandFirstWord
      then echoFilter commandFirstWord True lines
      else line # echoFilter commandFirstWord commandEchoSkipped lines)"

text \<open>\<open>command.split(' ')[0]\<close> is the command up to its first space.\<close>

definition cleanCommandEcho :: "jsstring \<Rightarrow> jsstring \<Rightarrow> jsstring" where
  "cleanCommandEcho output command =
     join_nl (echoFilter (takeWhile (\<lambda>c. c \<noteq> 32) command) False (split_nl output))"

subsection \<open>cleanPrompt\<close>

text \<open>
  The callback of the filter returns false, and the line is dropped, when the trimmed
  line matches one of these, tried in this order
  (the heavy right-pointing angle quotation mark U+276F of the fifth pattern is one code
  unit, 10095; the apostrophe is 39, the double quote 34):
  \<^enum> \<^verbatim>\<open>/^\(.+\)\s*[@$#]/\<close>
  \<^enum> \<^verbatim>\<open>/^\(.+\)[@$#]/\<close>
  \<^enum> \<^verbatim>\<open>/^\[.+\][@$#]/\<close>
  \<^enum> \<^verbatim>\<open>/^[$#>]\s*$/\<close>
  \<^enum> \<^verbatim>\<open>/^X\s*$/\<close> with U+276F for \<^verbatim>\<open>X\<close>
  \<^enum> \<^verbatim>\<open>/^~\s*$/\<close>
  \<^enum> \<^verbatim>\<open>/^%\s*$/\<close>
  \<^enum> \<^verbatim>\<open>/^user@.*:\~?\$?\s*$/\<close>
  \<^enum> \<^verbatim>\<open>/^user@.*:\S+\$?\s*$/\<close>
  \<^enum> \<^verbatim>\<open>/^\(.*\).*@.*:.*\$echo/\<close>
  \<^enum> \<^verbatim>\<open>/^.*@.*:.*\$echo/\<close>
  \<^enum> it includes \<^verbatim>\<open>echo'===\<close>
  \<^enum> it includes \<^verbatim>\<open>echo "===\<close>
\<close>

definition promptCallback :: "jsstring \<Rightarrow> bool" where
  "promptCallback line =
    (let trimmed = trim line in
     if rx_test (seqs [Lit (js ''(''), Plus isDot, Lit (js '')''), Star isSpace,
                       Cls (oneOf (js ''@$#''))]) trimmed then False
     else if rx_test (seqs [Lit (js ''(''), Plus isDot, Lit (js '')''),
                       Cls (oneOf (js ''@$#''))]) trimmed then False
     else if rx_test (seqs [Lit (js ''[''), Plus isDot, Lit (js '']''),
                       Cls (oneOf (js ''@$#''))]) trimmed then False
     else if rx_test (seqs [Cls (oneOf (js ''$#>'')), Star isSpace, AtEnd]) trimmed then False
     else if rx_test (seqs [Lit [10095], Star isSpace, AtEnd]) trimmed then False
     else if rx_test (seqs [Lit (js ''~''), Star isSpace, AtEnd]) trimmed then False
     else if rx_test (seqs [Lit (js ''%''), Star isSpace, AtEnd]) trimmed then False
     else if rx_test (seqs [Lit (js ''user@''), Star isDot, Lit (js '':''), Opt (Lit (js ''~'')),
                       Opt (Lit (js ''$'')), Star isSpace, AtEnd]) trimmed then False
     else if rx_test (seqs [Lit (js ''user@''), Star isDot, Lit (js '':''), Plus nonSpace,
                       Opt (Lit (js ''$'')), Star isSpace, AtEnd]) trimmed then False
     else if rx_test (seqs [Lit (js ''(''), Star isDot, Lit (js '')''), Star isDot, Lit (js ''@''),
                       Star isDot, Lit (js '':''), Star isDot, Lit (js ''$echo'')]) trimmed
     then False
     else if rx_test (seqs [Star isDot, Lit (js ''@''), Star isDot, Lit (js '':''), Star isDot,
                       Lit (js ''$echo'')]) trimmed then False
     else if includes_str trimmed (js ''echo'' @ [39] @ js ''==='') then False
     else if includes_str trimmed (js ''echo '' @ [34] @ js ''==='') then False
     else True)"

definition cleanPrompt :: "jsstring \<Rightarrow> jsstring" where
  "cleanPrompt output = join_nl (filter promptCallback (split_nl output))"

subsection \<open>cleanMarkers\<close>

text \<open>
  The callback of the filter returns false, and the line is dropped, when the trimmed
  line includes one of the three markers or matches
  \<^verbatim>\<open>/^echo\s+['"].*===/\<close>.
\<close>

record markers =
  startMarker :: jsstring
  endMarker :: jsstring
  exitMarker :: jsstring

definition markerCallback :: "markers \<Rightarrow> jsstring \<Rightarrow> bool" where
  "markerCallback ms line =
    (let trimmed = trim line in
     if includes_str trimmed (startMarker ms) then False
     else if includes_str trimmed (endMarker ms) then False
     else if includes_str trimmed (exitMarker ms) then False
     else if rx_test (seqs [Lit (js ''echo''), Plus isSpace, Cls (oneOf [39, 34]), Star isDot,
                       Lit (js ''==='')]) trimmed then False
     else True)"

definition cleanMarkers :: "jsstring \<Rightarrow> markers \<Rightarrow> jsstring" where
  "cleanMarkers output ms = join_nl (filter (markerCallback ms) (split_nl output))"

section \<open>Session Store\<close>

subsection \<open>More of JavaScript's strings and numbers\<close>

text \<open>\<open>x || d\<close> on an optional string: the default when \<open>x\<close> is undefined or empty.\<close>

definition orElse :: "jsstring option \<Rightarrow> jsstring \<Rightarrow> jsstring" where
  "orElse x d = (case x of None \<Rightarrow> d | Some v \<Rightarrow> if v = [] then d else v)"

text \<open>\<open>x || d\<close> on an optional number: the default when \<open>x\<close> is undefined or 0.\<close>

definition orElseNum :: "int option \<Rightarrow> int \<Rightarrow> int" where
  "orElseNum x d = (case x of None \<Rightarrow> d | Some v \<Rightarrow> if v = 0 then d else v)"

text \<open>The decimal digits of a number, as a template literal prints it.\<close>

fun showNat :: "nat \<Rightarrow> jsstring" where
  "showNat n = (if n < 10 then [48 + n] else showNat (n div 10) @ [48 + n mod 10])"

declare showNat.simps [simp del]

definition showInt :: "int \<Rightarrow> jsstring" where
  "showInt i = (if i < 0 then ch CHR ''-'' # showNat (nat (- i)) else showNat (nat i))"

text \<open>
  A number that \<open>parseInt\<close> returns is a double. Every integer up to \<open>2 ^ 53\<close> is a double,
  and \<open>Exact n\<close> is that number. For a larger integer \<open>parseInt\<close> returns a double near it
  (and past twenty digits the implementation may choose how near), which is not followed
  further: \<open>Rounded\<close> stands for any of these doubles. None of them is 0.
\<close>

datatype jsnumber = Exact int | Rounded

text \<open>\<open>parseInt(ds, 10)\<close> on a string of decimal digits.\<close>

definition parseInt :: "jsstring \<Rightarrow> jsnumber" where
  "parseInt ds =
     (let n = foldl (\<lambda>acc c. 10 * acc + (c - 48)) 0 ds
      in if n \<le> 2 ^ 53 then Exact (int n) else Rounded)"

text \<open>\<open>s.slice(start)\<close>: a negative start counts from the end.\<close>

definition slice_from :: "int \<Rightarrow> jsstring \<Rightarrow> jsstring" where
  "slice_from start s =
     (let n = int (length s);
          from = (if start < 0 then max (n + start) 0 else min start n)
      in drop (nat from) s)"

text \<open>
  \<open>s.substring(a, b)\<close>: both indices are clamped to the length, and swapped when the
  first is the greater.
\<close>

definition substring :: "nat \<Rightarrow> nat \<Rightarrow> jsstring \<Rightarrow> jsstring" where
  "substring a b s =
     (let a' = min a (length s); b' = min b (length s);
          lo = min a' b'; hi = max a' b'
      in take (hi - lo) (drop lo s))"

text \<open>\<open>s.lastIndexOf(t)\<close>, with \<open>None\<close> for -1.\<close>

definition lastIndexOf :: "jsstring \<Rightarrow> jsstring \<Rightarrow> nat option" where
  "lastIndexOf s t =
     (case filter (\<lambda>i. prefix t (drop i s)) (rev [0..<Suc (length s)]) of
        [] \<Rightarrow> None
      | i # _ \<Rightarrow> Some i)"

subsection \<open>Data\<close>

datatype SessionStatus = S_initializing | S_ready | S_busy | S_error | S_closed

text \<open>The errors that the Session Store throws, each with the detail it carries.\<close>

datatype TerminalError =
    SESSION_ALREADY_EXISTS jsstring
  | SESSION_BUSY jsstring
  | SESSION_CLOSED jsstring
  | MAX_SESSIONS_REACHED int
  | SESSION_CREATE_FAILED jsstring
  | COMMAND_EMPTY

text \<open>
  A session object. Its pseudo-terminal is the pair of \<open>written\<close>, the texts passed to
  \<open>ptyProcess.write\<close> in order, and \<open>killed\<close>. \<open>serror\<close> holds the exit code \<open>c\<close> of the
  message \<open>Process exited with code c\<close>. The environment snapshot and the backend
  reference play no part in the operations below and are left out.
\<close>

record TerminalSession =
  sid :: jsstring
  sname :: jsstring
  written :: "jsstring list"
  killed :: bool
  outputBuffer :: jsstring
  maxBufferSize :: int
  status :: SessionStatus
  lastCommand :: jsstring
  createdAt :: nat
  lastActivityAt :: nat
  cwd :: jsstring
  serror :: "int option"

record SessionOptions =
  o_id :: "jsstring option"
  o_cwd :: "jsstring option"
  o_shell :: "jsstring option"
  o_cols :: "int option"
  o_rows :: "int option"
  o_name :: "jsstring option"

record PtyOptions =
  pty_shell :: jsstring
  pty_cwd :: jsstring
  pty_cols :: int
  pty_rows :: int

text \<open>
  The backend is external. \<open>createPty\<close> yields \<open>Some message\<close> when the backend rejects
  the request (the message of the error, \<open>Unknown error\<close> when it is not an \<open>Error\<close>)
  and \<open>None\<close> when it hands out a pseudo-terminal.
\<close>

record Backend =
  getDefaultShell :: jsstring
  getDefaultCwd :: jsstring
  createPty :: "PtyOptions \<Rightarrow> jsstring option"

record SessionManagerConfig =
  maxSessions :: int
  defaultTimeout :: int
  sessionExpiry :: int
  configMaxBufferSize :: int
  markerPrefix :: jsstring

definition DEFAULT_CONFIG :: SessionManagerConfig where
  "DEFAULT_CONFIG = \<lparr>maxSessions = 10, defaultTimeout = 30000, sessionExpiry = 3600000,
     configMaxBufferSize = 1024 * 1024, markerPrefix = js ''__WSL_MCP_MARKER__''\<rparr>"

record CommandContext =
  sessionId :: "jsstring option"
  command :: jsstring
  timeout :: "int option"

record CommandResult =
  r_sessionId :: jsstring
  r_command :: jsstring
  r_output :: jsstring
  r_exitCode :: "jsnumber option"
  r_success :: bool
  r_duration :: int
  r_timedOut :: bool
  r_error :: "jsstring option"

subsection \<open>The world around a call\<close>

text \<open>
  Session objects are shared: the map of the store, the local variable of a running
  \<open>executeCommand\<close> and the callbacks registered on the pseudo-terminal all hold the same
  object. So the objects live in a heap, and the map \<open>sessions\<close> (a JavaScript \<open>Map\<close>,
  here the list of its entries in insertion order) takes an id to an address.

  The code is asynchronous: while a call sleeps, the pseudo-terminal may emit data, the
  process may exit, and another caller may close a session. What happens during each
  coming sleep is the list \<open>pending\<close>: one tick per sleep, with the time by which the
  sleep overshoots and the events delivered during it, each stamped with the time at which
  the sleep ends. \<open>clock\<close> is \<open>Date.now()\<close>; \<open>uuidCount\<close> numbers the values of \<open>uuidv4()\<close>.
\<close>

datatype event =
    PtyData nat jsstring
  | PtyExit nat int
  | CloseSession jsstring

type_synonym tick = "nat \<times> event list"

record world =
  heap :: "nat \<Rightarrow> TerminalSession"
  nextAddr :: nat
  sessions :: "(jsstring \<times> nat) list"
  clock :: nat
  pending :: "tick list"
  uuidCount :: nat

definition store_get :: "(jsstring \<times> nat) list \<Rightarrow> jsstring \<Rightarrow> nat option" where
  "store_get m k = map_of m k"

definition store_set :: "jsstring \<Rightarrow> nat \<Rightarrow> (jsstring \<times> nat) list \<Rightarrow> (jsstring \<times> nat) list" where
  "store_set k a m =
     (if k \<in> set (map fst m) then map (\<lambda>(k', a'). if k' = k then (k, a) else (k', a')) m
      else m @ [(k, a)])"

definition store_delete :: "jsstring \<Rightarrow> (jsstring \<times> nat) list \<Rightarrow> (jsstring \<times> nat) list" where
  "store_delete k m = filter (\<lambda>(k', a'). k' \<noteq> k) m"

definition store_size :: "(jsstring \<times> nat) list \<Rightarrow> int" where
  "store_size m = int (length m)"

definition modify :: "nat \<Rightarrow> (TerminalSession \<Rightarrow> TerminalSession) \<Rightarrow> world \<Rightarrow> world" where
  "modify a f w = w\<lparr>heap := (heap w)(a := f (heap w a))\<rparr>"

subsection \<open>Callbacks and closeSession\<close>

definition handleOutput :: "nat \<Rightarrow> jsstring \<Rightarrow> world \<Rightarrow> world" where
  "handleOutput a data w =
     modify a (\<lambda>session.
       let session = session\<lparr>outputBuffer := outputBuffer session @ data,
                               lastActivityAt := clock w\<rparr>
       in if int (length (outputBuffer session)) > maxBufferSize session
          then session\<lparr>outputBuffer :=
                 slice_from (- maxBufferSize session) (outputBuffer session)\<rparr>
          else session) w"

definition handleExit :: "nat \<Rightarrow> int \<Rightarrow> world \<Rightarrow> world" where
  "handleExit a code w =
     (let w = modify a (\<lambda>session. session\<lparr>status := S_closed, serror := Some code\<rparr>) w
      in w\<lparr>sessions := store_delete (sid (heap w a)) (sessions w)\<rparr>)"

text \<open>An error thrown by \<open>kill\<close> is swallowed, so the call goes on either way.\<close>

definition closeSession :: "jsstring \<Rightarrow> world \<Rightarrow> world" where
  "closeSession i w =
     (case store_get (sessions w) i of
        None \<Rightarrow> w
      | Some a \<Rightarrow>
          let w = modify a (\<lambda>session. session\<lparr>killed := True\<rparr>) w;
              w = modify a (\<lambda>session. session\<lparr>status := S_closed\<rparr>) w
          in w\<lparr>sessions := store_delete i (sessions w)\<rparr>)"

fun deliver :: "world \<Rightarrow> event \<Rightarrow> world" where
  "deliver w (PtyData a data) = handleOutput a data w"
| "deliver w (PtyExit a code) = handleExit a code w"
| "deliver w (CloseSession i) = closeSession i w"

definition sleep :: "nat \<Rightarrow> world \<Rightarrow> world" where
  "sleep ms w =
     (case pending w of
        [] \<Rightarrow> w\<lparr>clock := clock w + ms\<rparr>
      | (extra, events) # rest \<Rightarrow>
          foldl deliver (w\<lparr>clock := clock w + ms + extra, pending := rest\<rparr>) events)"

definition uuidv4 :: "world \<Rightarrow> jsstring \<times> world" where
  "uuidv4 w = (js ''uuid-'' @ showNat (uuidCount w), w\<lparr>uuidCount := Suc (uuidCount w)\<rparr>)"

subsection \<open>createSession and getOrCreateSession\<close>

text \<open>
  \<open>createSession\<close> waits twice: for the backend's \<open>createPty\<close>, which takes as long as
  the tick says, and for the 500 ms after which the session is marked ready.
\<close>

definition createSession ::
  "SessionManagerConfig \<Rightarrow> Backend \<Rightarrow> SessionOptions \<Rightarrow> world \<Rightarrow> (TerminalError + nat) \<times> world"
where
  "createSession config backend options w =
    (if store_size (sessions w) \<ge> maxSessions config
     then (Inl (MAX_SESSIONS_REACHED (maxSessions config)), w)
     else
       let (sessionId, w) =
             (case o_id options of
                None \<Rightarrow> uuidv4 w
              | Some i \<Rightarrow> if i = [] then uuidv4 w else (i, w))
       in if store_get (sessions w) sessionId \<noteq> None
          then (Inl (SESSION_ALREADY_EXISTS sessionId), w)
          else
            let failure = createPty backend
                  \<lparr>pty_shell = orElse (o_shell options) (getDefaultShell backend),
                   pty_cwd = orElse (o_cwd options) (getDefaultCwd backend),
                   pty_cols = orElseNum (o_cols options) 160,
                   pty_rows = orElseNum (o_rows options) 40\<rparr>;
                w = sleep 0 w
            in case failure of
                 Some message \<Rightarrow> (Inl (SESSION_CREATE_FAILED message), w)
               | None \<Rightarrow>
                   let a = nextAddr w;
                       session = \<lparr>sid = sessionId,
                                  sname = orElse (o_name options) (js ''session-'' @ take 8 sessionId),
                                  written = [], killed = False,
                                  outputBuffer = [],
                                  maxBufferSize = configMaxBufferSize config,
                                  status = S_initializing,
                                  lastCommand = [],
                                  createdAt = clock w, lastActivityAt = clock w,
                                  cwd = orElse (o_cwd options) (getDefaultCwd backend),
                                  serror = None\<rparr>;
                       w = w\<lparr>heap := (heap w)(a := session), nextAddr := Suc a\<rparr>;
                       w = sleep 500 w;
                       w = modify a (\<lambda>session. session\<lparr>status := S_ready\<rparr>) w;
                       w = w\<lparr>sessions := store_set sessionId a (sessions w)\<rparr>
                   in (Inr a, w))"

definition noOptions :: SessionOptions where
  "noOptions = \<lparr>o_id = None, o_cwd = None, o_shell = None, o_cols = None, o_rows = None,
     o_name = None\<rparr>"

text \<open>The parameter \<open>id\<close> has the default \<open>'default'\<close>, taken when it is undefined.\<close>

definition getOrCreateSession ::
  "SessionManagerConfig \<Rightarrow> Backend \<Rightarrow> jsstring option \<Rightarrow> SessionOptions \<Rightarrow> world
     \<Rightarrow> (TerminalError + nat) \<times> world"
where
  "getOrCreateSession config backend i options w =
    (let i = (case i of None \<Rightarrow> js ''default'' | Some i \<Rightarrow> i)
     in case store_get (sessions w) i of
          Some a \<Rightarrow> (Inr a, w)
        | None \<Rightarrow> createSession config backend (options\<lparr>o_id := Some i\<rparr>) w)"

subsection \<open>executeCommand: the Command Protocol\<close>

definition markersAt :: "nat \<Rightarrow> markers" where
  "markersAt timestamp =
     \<lparr>startMarker = js ''===START'' @ showNat timestamp @ js ''==='',
      endMarker = js ''===END'' @ showNat timestamp @ js ''==='',
      exitMarker = js ''===EXIT'' @ showNat timestamp @ js ''===''\<rparr>"

definition ptyWrite :: "nat \<Rightarrow> jsstring \<Rightarrow> world \<Rightarrow> world" where
  "ptyWrite a data w = modify a (\<lambda>session. session\<lparr>written := written session @ [data]\<rparr>) w"

text \<open>
  From the acceptance of the command to the last write: the session becomes busy, the
  command is recorded, the buffer is cleared, and after 100 ms the markers are made from
  the time and the four lines are written, 50 ms apart. The apostrophe is 39.
\<close>

definition startCommand :: "CommandContext \<Rightarrow> nat \<Rightarrow> world \<Rightarrow> markers \<times> world" where
  "startCommand context a w =
    (let w = modify a (\<lambda>session. session\<lparr>status := S_busy, lastCommand := command context,
                                          lastActivityAt := clock w\<rparr>) w;
         w = modify a (\<lambda>session. session\<lparr>outputBuffer := []\<rparr>) w;
         w = sleep 100 w;
         ms = markersAt (clock w);
         w = ptyWrite a (js ''echo '' @ [39] @ startMarker ms @ [39, 10]) w;
         w = sleep 50 w;
         w = ptyWrite a (command context @ [10]) w;
         w = sleep 50 w;
         w = ptyWrite a (js ''echo '' @ [39] @ exitMarker ms @ [39] @ js ''$?'' @ [10]) w;
         w = sleep 50 w;
         w = ptyWrite a (js ''echo '' @ [39] @ endMarker ms @ [39, 10]) w
     in (ms, w))"

text \<open>
  The polling loop. It returns \<open>foundEnd\<close> and the world in which it stops; when it
  finds the end marker it waits 200 ms more.
\<close>

function awaitEnd :: "nat \<Rightarrow> jsstring \<Rightarrow> int \<Rightarrow> nat \<Rightarrow> world \<Rightarrow> bool \<times> world" where
  "awaitEnd a endM timeoutMs startTimeWait w =
    (if int (clock w) - int startTimeWait < timeoutMs
     then if includes_str (outputBuffer (heap w a)) endM
          then (True, sleep 200 w)
          else awaitEnd a endM timeoutMs startTimeWait (sleep 100 w)
     else (False, w))"
  by pat_completeness auto

text \<open>Every pass through the loop sleeps, and a sleep moves the clock on: the loop ends.\<close>

lemma clock_deliver: "clock (deliver w e) = clock w"
  by (cases e)
    (auto simp: handleOutput_def handleExit_def closeSession_def modify_def Let_def
      split: option.splits)

lemma clock_foldl_deliver: "clock (foldl deliver w es) = clock w"
  by (induction es arbitrary: w) (auto simp: clock_deliver)

lemma clock_sleep: "clock w + ms \<le> clock (sleep ms w)"
  by (auto simp: sleep_def clock_foldl_deliver split: list.splits)

termination awaitEnd
proof (relation "measure (\<lambda>(a, endM, timeoutMs, startTimeWait, w).
    nat (int startTimeWait + timeoutMs - int (clock w)))")
  show "wf (measure (\<lambda>(a, endM, timeoutMs, startTimeWait, w).
      nat (int startTimeWait + timeoutMs - int (clock w))))"
    by simp
next
  fix a :: nat and endM :: jsstring and timeoutMs :: int and startTimeWait :: nat and w :: world
  assume "int (clock w) - int startTimeWait < timeoutMs"
  moreover have "clock w + 100 \<le> clock (sleep 100 w)"
    by (rule clock_sleep)
  ultimately show "((a, endM, timeoutMs, startTimeWait, sleep 100 w),
      (a, endM, timeoutMs, startTimeWait, w))
    \<in> measure (\<lambda>(a, endM, timeoutMs, startTimeWait, w).
        nat (int startTimeWait + timeoutMs - int (clock w)))"
    by simp
qed

declare awaitEnd.simps [simp del]

text \<open>
  The exit code: the first place in the buffer where the exit marker is followed by a
  digit, and all the digits that follow it there.
\<close>

definition exitCodeOf :: "jsstring \<Rightarrow> jsstring \<Rightarrow> jsnumber" where
  "exitCodeOf buffer exitM =
     (case rx_exec (Seq (Lit exitM) (Plus isDigit)) buffer of
        None \<Rightarrow> Exact 0
      | Some (at, rest) \<Rightarrow>
          parseInt (take (length at - length exitM - length rest) (drop (length exitM) at)))"

text \<open>What \<open>executeCommand\<close> does once the loop has ended.\<close>

definition finishCommand ::
  "CommandContext \<Rightarrow> nat \<Rightarrow> markers \<Rightarrow> nat \<Rightarrow> int \<Rightarrow> bool \<Rightarrow> world
     \<Rightarrow> CommandResult \<times> world"
where
  "finishCommand context a ms startTime timeoutMs foundEnd w =
    (let w = modify a (\<lambda>session. session\<lparr>status := S_ready\<rparr>) w;
         session = heap w a
     in if \<not> foundEnd
        then (\<lparr>r_sessionId = sid session, r_command = command context, r_output = [],
               r_exitCode = None, r_success = False,
               r_duration = int (clock w) - int startTime, r_timedOut = True,
               r_error = Some (js ''Command timeout after '' @ showInt timeoutMs @ js ''ms'')\<rparr>, w)
        else
          let buffer = outputBuffer session;
              startIdx = lastIndexOf buffer (startMarker ms);
              endIdx = lastIndexOf buffer (endMarker ms)
          in if startIdx = None \<or> endIdx = None \<or> the startIdx \<ge> the endIdx
             then (\<lparr>r_sessionId = sid session, r_command = command context,
                    r_output = cleanOutput buffer, r_exitCode = Some (Exact 0),
                    r_success = True,
                    r_duration = int (clock w) - int startTime, r_timedOut = False,
                    r_error = None\<rparr>, w)
             else
               let code = exitCodeOf buffer (exitMarker ms);
                   result = substring (the startIdx + length (startMarker ms)) (the endIdx) buffer;
                   result = cleanOutput result;
                   result = cleanMarkers result ms;
                   result = cleanCommandEcho result (command context);
                   result = cleanPrompt result
               in (\<lparr>r_sessionId = sid session, r_command = command context,
                      r_output = result, r_exitCode = Some code, r_success = (code = Exact 0),
                      r_duration = int (clock w) - int startTime, r_timedOut = False,
                      r_error = None\<rparr>, w))"

definition executeCommand ::
  "SessionManagerConfig \<Rightarrow> Backend \<Rightarrow> CommandContext \<Rightarrow> world
     \<Rightarrow> (TerminalError + CommandResult) \<times> world"
where
  "executeCommand config backend context w =
    (if command context = [] \<or> trim (command context) = []
     then (Inl COMMAND_EMPTY, w)
     else
       case getOrCreateSession config backend (sessionId context) noOptions w of
         (Inl e, w) \<Rightarrow> (Inl e, w)
       | (Inr a, w) \<Rightarrow>
           if status (heap w a) = S_busy
           then (Inl (SESSION_BUSY (orElse (sessionId context) (js ''default''))), w)
           else if status (heap w a) = S_closed
           then (Inl (SESSION_CLOSED (orElse (sessionId context) (js ''default''))), w)
           else
             let startTime = clock w;
                 timeoutMs = orElseNum (timeout context) (defaultTimeout config);
                 (ms, w) = startCommand context a w;
                 (foundEnd, w) = awaitEnd a (endMarker ms) timeoutMs (clock w) w;
                 (result, w) = finishCommand context a ms startTime timeoutMs foundEnd w
             in (Inr result, w))"

text \<open>
  What the loop sees: the buffer at each instant at which it looks, for as long as the
  timeout has not elapsed and it goes on looking.
\<close>

function polls :: "nat \<Rightarrow> int \<Rightarrow> nat \<Rightarrow> world \<Rightarrow> jsstring list" where
  "polls a timeoutMs startTimeWait w =
    (if int (clock w) - int startTimeWait < timeoutMs
     then outputBuffer (heap w a) # polls a timeoutMs startTimeWait (sleep 100 w)
     else [])"
  by pat_completeness auto
termination
proof (relation "measure (\<lambda>(a, timeoutMs, startTimeWait, w).
    nat (int startTimeWait + timeoutMs - int (clock w)))")
  show "wf (measure (\<lambda>(a, timeoutMs, startTimeWait, w).
      nat (int startTimeWait + timeoutMs - int (clock w))))"
    by simp
next
  fix a :: nat and timeoutMs :: int and startTimeWait :: nat and w :: world
  assume "int (clock w) - int startTimeWait < timeoutMs"
  moreover have "clock w + 100 \<le> clock (sleep 100 w)"
    by (rule clock_sleep)
  ultimately show "((a, timeoutMs, startTimeWait, sleep 100 w), (a, timeoutMs, startTimeWait, w))
    \<in> measure (\<lambda>(a, timeoutMs, startTimeWait, w).
        nat (int startTimeWait + timeoutMs - int (clock w)))"
    by simp
qed

declare polls.simps [simp del]

subsection \<open>What the parse is meant to find\<close>

text \<open>
  \<open>t\<close> occurs in \<open>s\<close> at index \<open>i\<close>; \<open>i\<close> is the index of the last occurrence of \<open>t\<close> in
  \<open>s\<close>.
\<close>

definition occurs_at :: "jsstring \<Rightarrow> nat \<Rightarrow> jsstring \<Rightarrow> bool" where
  "occurs_at t i s = (i \<le> length s \<and> prefix t (drop i s))"

definition last_occurrence :: "jsstring \<Rightarrow> jsstring \<Rightarrow> nat \<Rightarrow> bool" where
  "last_occurrence t s i = (occurs_at t i s \<and> (\<forall>j. occurs_at t j s \<longrightarrow> j \<le> i))"

text \<open>\<open>mid\<close> is the part of \<open>s\<close> from index \<open>lo\<close> up to, and without, index \<open>hi\<close>.\<close>

definition text_between :: "nat \<Rightarrow> nat \<Rightarrow> jsstring \<Rightarrow> jsstring \<Rightarrow> bool" where
  "text_between lo hi s mid =
     (\<exists>pre post. s = pre @ mid @ post \<and> length pre = lo \<and> length (pre @ mid) = hi)"

text \<open>
  \<open>ds\<close> is the run of digits that follows the first place in the buffer at which the
  exit marker \<open>m\<close> is followed by a digit.
\<close>

definition exit_digits :: "jsstring \<Rightarrow> jsstring \<Rightarrow> jsstring \<Rightarrow> bool" where
  "exit_digits buffer m ds =
    (\<exists>pre post. buffer = pre @ m @ ds @ post \<and> ds \<noteq> [] \<and> list_all isDigit ds
       \<and> (post = [] \<or> \<not> isDigit (hd post))
       \<and> (\<forall>pre' d post'. buffer = pre' @ m @ d # post' \<and> isDigit d \<longrightarrow> length pre \<le> length pre'))"

text \<open>The number that the decimal digits \<open>ds\<close> write.\<close>

definition decimal :: "jsstring \<Rightarrow> nat" where
  "decimal ds = (\<Sum>i<length ds. (ds ! i - 48) * 10 ^ (length ds - Suc i))"

section \<open>Background Process Poller\<close>

datatype PollingStatus = P_running | P_paused | P_completed | P_error | P_stopped

record BackgroundProcess =
  p_id :: jsstring
  p_sessionId :: jsstring
  p_command :: jsstring
  p_status :: PollingStatus
  p_outputBuffer :: jsstring
  readPosition :: int
  p_createdAt :: nat
  lastUpdatedAt :: nat
  p_exitCode :: "jsnumber option"
  p_error :: "jsstring option"
  interval :: int

record PollResult =
  pr_processId :: jsstring
  pr_sessionId :: jsstring
  pr_output :: jsstring
  hasNewContent :: bool
  isComplete :: bool
  pr_exitCode :: "jsnumber option"
  pr_timestamp :: nat
  pr_status :: PollingStatus
  pr_error :: "jsstring option"

text \<open>The record that \<open>startProcess\<close> makes.\<close>

definition newProcess :: "jsstring \<Rightarrow> jsstring \<Rightarrow> jsstring \<Rightarrow> int \<Rightarrow> nat \<Rightarrow> BackgroundProcess" where
  "newProcess processId sessId cmd pollInterval now =
     \<lparr>p_id = processId, p_sessionId = sessId, p_command = cmd, p_status = P_running,
      p_outputBuffer = [], readPosition = 0, p_createdAt = now, lastUpdatedAt = now,
      p_exitCode = None, p_error = None, interval = pollInterval\<rparr>"

text \<open>
  The listener that \<open>executeBackgroundCommand\<close> attaches to the pseudo-terminal;
  \<open>maxBuf\<close> is \<open>config.maxBufferSize\<close>.
\<close>

definition outputListener :: "int \<Rightarrow> nat \<Rightarrow> jsstring \<Rightarrow> BackgroundProcess \<Rightarrow> BackgroundProcess" where
  "outputListener maxBuf now data process =
    (let process = process\<lparr>p_outputBuffer := p_outputBuffer process @ data,
                             lastUpdatedAt := now\<rparr>
     in if int (length (p_outputBuffer process)) > maxBuf
        then let excess = int (length (p_outputBuffer process)) - maxBuf
             in process\<lparr>p_outputBuffer := slice_from excess (p_outputBuffer process),
                         readPosition := max 0 (readPosition process - excess)\<rparr>
        else process)"

text \<open>\<open>poll\<close> on the record found under the id.\<close>

definition pollRecord :: "bool \<Rightarrow> nat \<Rightarrow> BackgroundProcess \<Rightarrow> PollResult \<times> BackgroundProcess" where
  "pollRecord incremental now process =
    (let (out, new) =
           (if incremental
            then let out = slice_from (readPosition process) (p_outputBuffer process)
                 in (out, length out > 0)
            else (p_outputBuffer process,
                  int (length (p_outputBuffer process)) > readPosition process));
         process = process\<lparr>readPosition := int (length (p_outputBuffer process))\<rparr>;
         process = process\<lparr>lastUpdatedAt := now\<rparr>
     in (\<lparr>pr_processId = p_id process, pr_sessionId = p_sessionId process, pr_output = out,
           hasNewContent = new,
           isComplete = (p_status process = P_completed \<or> p_status process = P_error),
           pr_exitCode = p_exitCode process, pr_timestamp = now, pr_status = p_status process,
           pr_error = p_error process\<rparr>, process))"

text \<open>
  \<open>stopProcess\<close> on the record found under the id; it also writes the interrupt byte to
  the pseudo-terminal of the session, which does not touch the record.
\<close>

definition stopRecord :: "nat \<Rightarrow> BackgroundProcess \<Rightarrow> BackgroundProcess" where
  "stopRecord now process = process\<lparr>p_status := P_stopped, lastUpdatedAt := now\<rparr>"

text \<open>
  What \<open>executeBackgroundCommand\<close> does when the wrapped \<open>executeCommand\<close> is over: with
  its result, or with the message of the error it threw.
\<close>

datatype outcome = Returned CommandResult | Threw jsstring

definition completeRecord :: "outcome \<Rightarrow> nat \<Rightarrow> BackgroundProcess \<Rightarrow> BackgroundProcess" where
  "completeRecord oc now process =
    (let process =
          (case oc of
             Returned result \<Rightarrow>
               process\<lparr>p_exitCode := r_exitCode result,
                        p_status := (if r_success result then P_completed else P_error),
                        p_error := r_error result\<rparr>
           | Threw message \<Rightarrow> process\<lparr>p_status := P_error, p_error := Some message\<rparr>)
     in process\<lparr>lastUpdatedAt := now\<rparr>)"

text \<open>The handler that \<open>startProcess\<close> puts on a rejected \<open>executeBackgroundCommand\<close>.\<close>

definition startCatch :: "jsstring \<Rightarrow> nat \<Rightarrow> BackgroundProcess \<Rightarrow> BackgroundProcess" where
  "startCatch message now process =
     process\<lparr>p_status := P_error, p_error := Some message, lastUpdatedAt := now\<rparr>"

text \<open>
  Everything that touches a record after its creation, each with the time at which it
  happens, and the life of a record as a sequence of these.
\<close>

datatype procEvent =
    Output nat jsstring
  | Poll nat bool
  | Stop nat
  | Finished nat outcome
  | StartFailed nat jsstring

fun procStep :: "int \<Rightarrow> BackgroundProcess \<Rightarrow> procEvent \<Rightarrow> BackgroundProcess" where
  "procStep maxBuf process (Output now data) = outputListener maxBuf now data process"
| "procStep maxBuf process (Poll now incremental) = snd (pollRecord incremental now process)"
| "procStep maxBuf process (Stop now) = stopRecord now process"
| "procStep maxBuf process (Finished now oc) = completeRecord oc now process"
| "procStep maxBuf process (StartFailed now message) = startCatch message now process"

definition terminal :: "PollingStatus \<Rightarrow> bool" where
  "terminal st = (st = P_completed \<or> st = P_error \<or> st = P_stopped)"

text \<open>
  The poller keeps its records in a map from process ids; the listener and the completion
  handler hold the record itself. \<open>poll\<close> throws an error with a message when the id is
  unknown, \<open>stopProcess\<close> does nothing then. The interrupt byte is 3.
\<close>

record poller =
  procs :: "nat \<Rightarrow> BackgroundProcess"
  processes :: "(jsstring \<times> nat) list"

definition poll :: "jsstring \<Rightarrow> bool \<Rightarrow> nat \<Rightarrow> poller \<Rightarrow> (jsstring + PollResult) \<times> poller" where
  "poll processId incremental now ps =
    (case map_of (processes ps) processId of
       None \<Rightarrow> (Inl (js ''Process '' @ processId @ js '' not found''), ps)
     | Some a \<Rightarrow>
         let (result, process) = pollRecord incremental now (procs ps a)
         in (Inr result, ps\<lparr>procs := (procs ps)(a := process)\<rparr>))"

definition stopProcess :: "jsstring \<Rightarrow> nat \<Rightarrow> poller \<Rightarrow> world \<Rightarrow> poller \<times> world" where
  "stopProcess processId now ps w =
    (case map_of (processes ps) processId of
       None \<Rightarrow> (ps, w)
     | Some a \<Rightarrow>
         let process = procs ps a;
             w = (case store_get (sessions w) (p_sessionId process) of
                    None \<Rightarrow> w
                  | Some sa \<Rightarrow> ptyWrite sa [3] w)
         in (ps\<lparr>procs := (procs ps)(a := stopRecord now process)\<rparr>, w))"

subsection \<open>Events that leave the store alone\<close>

text \<open>The id under which \<open>createSession\<close> registers the session: \<open>options?.id || uuidv4()\<close>.\<close>

definition requestedId :: "SessionOptions \<Rightarrow> world \<Rightarrow> jsstring" where
  "requestedId options w =
     fst (case o_id options of
            None \<Rightarrow> uuidv4 w
          | Some i \<Rightarrow> if i = [] then uuidv4 w else (i, w))"

text \<open>
  An event that keeps the entries of the ids \<open>ids\<close> in the store: data from any
  pseudo-terminal; the exit of the pseudo-terminal of a session that exists in \<open>w\<close> and
  whose id is none of \<open>ids\<close>; \<open>closeSession\<close> for an id that is none of \<open>ids\<close>. In a world
  that is \<open>undisturbed\<close> all the pending events are of this kind.
\<close>

definition bystander :: "jsstring list \<Rightarrow> world \<Rightarrow> event \<Rightarrow> bool" where
  "bystander ids w e =
     (case e of
        PtyData a data \<Rightarrow> True
      | PtyExit a code \<Rightarrow> a < nextAddr w \<and> sid (heap w a) \<notin> set ids
      | CloseSession i \<Rightarrow> i \<notin> set ids)"

definition undisturbed :: "jsstring list \<Rightarrow> world \<Rightarrow> bool" where
  "undisturbed ids w = list_all (\<lambda>tick. list_all (bystander ids w) (snd tick)) (pending w)"

subsection \<open>Concrete sessions and worlds\<close>

definition blankSession :: TerminalSession where
  "blankSession = \<lparr>sid = [], sname = [], written = [], killed = False, outputBuffer = [],
     maxBufferSize = 1024, status = S_ready, lastCommand = [], createdAt = 0,
     lastActivityAt = 0, cwd = [], serror = None\<rparr>"

definition okBackend :: Backend where
  "okBackend = \<lparr>getDefaultShell = js ''/bin/bash'', getDefaultCwd = js ''/root'',
     createPty = (\<lambda>options. None)\<rparr>"

text \<open>A store with no session, and one that holds the session \<open>default\<close> at address 0.\<close>

definition emptyWorld :: world where
  "emptyWorld = \<lparr>heap = (\<lambda>a. blankSession), nextAddr = 0, sessions = [], clock = 1000,
     pending = [], uuidCount = 0\<rparr>"

definition oneSession :: "SessionStatus \<Rightarrow> world" where
  "oneSession st =
     \<lparr>heap = (\<lambda>a. blankSession)(0 := blankSession\<lparr>sid := js ''default'', status := st\<rparr>),
      nextAddr = 1, sessions = [(js ''default'', 0)], clock = 1000, pending = [],
      uuidCount = 0\<rparr>"

definition lsContext :: CommandContext where
  "lsContext = \<lparr>sessionId = None, command = js ''ls'', timeout = Some 100\<rparr>"

text \<open>
  A session whose shell answers the command \<open>sh build.sh\<close> during the first wait of the
  loop, with the markers of time 1100: a late line of an earlier command, the start
  marker, one line of output, the exit marker with the exit code 12, the end marker and
  the next prompt. And a session whose shell prints a line and never the end marker.
\<close>

definition buildOut :: jsstring where
  "buildOut = js ''late line'' @ [10] @ js ''===START1100==='' @ [10] @ js ''step 1 failed'' @ [10]
     @ js ''===EXIT1100===12'' @ [10] @ js ''===END1100==='' @ [10] @ js ''user@host:~$ ''"

definition buildWorld :: world where
  "buildWorld = (oneSession S_ready)
     \<lparr>pending := [(0, []), (0, []), (0, []), (0, []), (0, [PtyData 0 buildOut])]\<rparr>"

definition buildContext :: CommandContext where
  "buildContext = \<lparr>sessionId = None, command = js ''sh build.sh'', timeout = Some 1000\<rparr>"

definition silentWorld :: world where
  "silentWorld = (oneSession S_ready)
     \<lparr>pending := [(0, []), (0, []), (0, []), (0, []), (0, [PtyData 0 (js ''total 0'')])]\<rparr>"

definition slowContext :: CommandContext where
  "slowContext = \<lparr>sessionId = None, command = js ''ls'', timeout = Some 200\<rparr>"

lemmas shell_eval = buildOut_def buildWorld_def buildContext_def silentWorld_def
  slowContext_def

text \<open>
  A background process for \<open>make\<close>, the result of a command that succeeded, a poller
  that holds the record of the process after this result, and a session whose buffer
  limit is 0.
\<close>

definition okResult :: CommandResult where
  "okResult = \<lparr>r_sessionId = js ''default'', r_command = js ''make'', r_output = js ''done'',
     r_exitCode = Some (Exact 0), r_success = True, r_duration = 1200, r_timedOut = False,
     r_error = None\<rparr>"

definition makeProcess :: BackgroundProcess where
  "makeProcess = newProcess (js ''p1'') (js ''default'') (js ''make'') 1000 1000"

definition zeroLimit :: world where
  "zeroLimit = (oneSession S_ready)\<lparr>heap := (heap (oneSession S_ready))
     (0 := (heap (oneSession S_ready) 0)\<lparr>maxBufferSize := 0\<rparr>)\<rparr>"

definition donePoller :: poller where
  "donePoller = \<lparr>procs = (\<lambda>a. procStep 1024 makeProcess (Finished 2200 (Returned okResult))),
     processes = [(js ''p1'', 0)]\<rparr>"

definition capacityOne :: SessionManagerConfig where
  "capacityOne = DEFAULT_CONFIG\<lparr>maxSessions := 1\<rparr>"

definition namedOptions :: "jsstring \<Rightarrow> SessionOptions" where
  "namedOptions i = noOptions\<lparr>o_id := Some i\<rparr>"

text \<open>
  The manager of capacity 1 after its session \<open>default\<close> has been closed and a session
  \<open>default\<close> has been created again, and the same once the pseudo-terminal that
  \<open>closeSession\<close> killed, the one of the first session at address 0, has reported its exit
  with code 0.
\<close>

definition reopenedWorld :: world where
  "reopenedWorld = snd (createSession capacityOne okBackend (namedOptions (js ''default''))
     (closeSession (js ''default'') (oneSession S_ready)))"

definition staleExitWorld :: world where
  "staleExitWorld = deliver reopenedWorld (PtyExit 0 0)"

lemmas world_eval = executeCommand_def getOrCreateSession_def createSession_def
  DEFAULT_CONFIG_def noOptions_def store_get_def store_size_def store_set_def store_delete_def
  uuidv4_def sleep_def modify_def handleOutput_def handleExit_def closeSession_def
  slice_from_def orElse_def orElseNum_def startCommand_def ptyWrite_def markersAt_def
  showNat.simps showInt_def awaitEnd.simps polls.simps finishCommand_def lastIndexOf_def
  substring_def exitCodeOf_def parseInt_def blankSession_def okBackend_def emptyWorld_def
  oneSession_def lsContext_def capacityOne_def namedOptions_def reopenedWorld_def staleExitWorld_def Let_def

section \<open>Lines\<close>

lemma split_nl_nonempty: "split_nl s \<noteq> []"
  by (induction s) (auto simp: Let_def)

lemma split_nl_no_nl: "l \<in> set (split_nl s) \<Longrightarrow> 10 \<notin> set l"
proof (induction s arbitrary: l)
  case Nil
  then show ?case by simp
next
  case (Cons c s)
  obtain h t where ht: "split_nl s = h # t"
    using split_nl_nonempty [of s] by (cases "split_nl s") auto
  with Cons show ?case
    by (auto simp: Let_def split: if_splits)
qed

lemma split_nl_lit: "10 \<notin> set l \<Longrightarrow> split_nl (l @ 10 # s) = l # split_nl s"
  by (induction l) (auto simp: Let_def)

lemma split_nl_single: "10 \<notin> set l \<Longrightarrow> split_nl l = [l]"
  by (induction l) (auto simp: Let_def)

lemma split_join_nl:
  "ls \<noteq> [] \<Longrightarrow> list_all (\<lambda>l. 10 \<notin> set l) ls \<Longrightarrow> split_nl (join_nl ls) = ls"
proof (induction ls rule: join_nl.induct)
  case 1
  then show ?case by simp
next
  case (2 l)
  then show ?case by (simp add: split_nl_single)
next
  case (3 l v va)
  then show ?case by (simp add: split_nl_lit)
qed

lemma join_nl_filter_single: "join_nl (filter P [[]]) = []"
  by simp

text \<open>
  A filter over the lines whose callback looks at the line alone removes nothing more
  when it runs a second time.
\<close>

lemma line_filter_idem:
  "join_nl (filter P (split_nl (join_nl (filter P (split_nl s))))) =
   join_nl (filter P (split_nl s))"
proof (cases "filter P (split_nl s) = []")
  case True
  then show ?thesis by simp
next
  case False
  have "list_all (\<lambda>l. 10 \<notin> set l) (filter P (split_nl s))"
    by (auto simp: list_all_iff dest: split_nl_no_nl)
  with False have "split_nl (join_nl (filter P (split_nl s))) = filter P (split_nl s)"
    by (rule split_join_nl)
  then show ?thesis by simp
qed

lemma subseq_echoFilter: "subseq (echoFilter w b ls) ls"
  by (induction ls arbitrary: b) (auto simp: Let_def)

section \<open>Properties of the Output Cleaner\<close>

text \<open>
  C8, as the code has it: \<open>cleanMarkers\<close> and \<open>cleanPrompt\<close> are idempotent, for every
  text and every marker triple: cleaning the cleaned text again returns it unchanged.
\<close>

theorem cleanMarkers_cleanPrompt_idempotent:
  "cleanMarkers (cleanMarkers s m) m = cleanMarkers s m
   \<and> cleanPrompt (cleanPrompt s) = cleanPrompt s"
  unfolding cleanMarkers_def cleanPrompt_def by (simp add: line_filter_idem)

text \<open>
  C8, as the claim states it, fails for the other two stages. \<open>cleanCommandEcho\<close> drops
  the first line that contains the first word of the command each time it runs: on the
  two lines \<open>ls\<close> and \<open>ls.txt\<close> with the command \<open>ls\<close> the first run leaves \<open>ls.txt\<close> and
  the second run leaves nothing. \<open>cleanOutput\<close> collapses runs of line feeds before it
  trims the lines: on \<open>a\<close>, a line holding one space, an empty line and \<open>b\<close> the first
  run leaves three line feeds between \<open>a\<close> and \<open>b\<close>, the second run two.
\<close>

theorem cleaner_stages_not_idempotent:
  "cleanCommandEcho (cleanCommandEcho (js ''ls'' @ [10] @ js ''ls.txt'') (js ''ls'')) (js ''ls'')
     \<noteq> cleanCommandEcho (js ''ls'' @ [10] @ js ''ls.txt'') (js ''ls'')
   \<and> cleanOutput (cleanOutput (js ''a'' @ [10, 32, 10, 10] @ js ''b''))
     \<noteq> cleanOutput (js ''a'' @ [10, 32, 10, 10] @ js ''b'')"
  by (simp add: cleanCommandEcho_def cleanOutput_def Let_def js_eval)

text \<open>
  C10: \<open>cleanMarkers\<close>, \<open>cleanCommandEcho\<close> and \<open>cleanPrompt\<close> are line filters. The
  output is the join of some lines \<open>ys\<close> that form a subsequence of the lines of the input,
  in their order: each retained line is a line of the input as it stands, and nothing is
  added.
\<close>

theorem cleaners_are_line_filters:
  "(\<exists>ys. subseq ys (split_nl s) \<and> cleanMarkers s m = join_nl ys)
   \<and> (\<exists>ys. subseq ys (split_nl s) \<and> cleanCommandEcho s c = join_nl ys)
   \<and> (\<exists>ys. subseq ys (split_nl s) \<and> cleanPrompt s = join_nl ys)"
proof (intro conjI)
  show "\<exists>ys. subseq ys (split_nl s) \<and> cleanMarkers s m = join_nl ys"
    unfolding cleanMarkers_def by (blast intro: subseq_filter_left)
  show "\<exists>ys. subseq ys (split_nl s) \<and> cleanCommandEcho s c = join_nl ys"
    unfolding cleanCommandEcho_def by (blast intro: subseq_echoFilter)
  show "\<exists>ys. subseq ys (split_nl s) \<and> cleanPrompt s = join_nl ys"
    unfolding cleanPrompt_def by (blast intro: subseq_filter_left)
qed

section \<open>Properties of the Command Protocol\<close>

lemma trim_Nil_iff: "trim s = [] \<longleftrightarrow> list_all isSpace s"
proof
  assume "list_all isSpace s"
  then have "\<forall>c\<in>set (rev s). isSpace c"
    by (simp add: list_all_iff)
  then have d: "dropWhile isSpace (rev s) = []"
    by (rule iffD2 [OF dropWhile_eq_Nil_conv])
  show "trim s = []"
    unfolding trim_def trimStart_def trimEnd_def d by simp
next
  assume t: "trim s = []"
  let ?t = "dropWhile isSpace (rev s)"
  from t have all: "\<forall>c\<in>set ?t. isSpace c"
    by (simp add: trim_def trimStart_def trimEnd_def)
  have "?t = []"
  proof (rule ccontr)
    assume "?t \<noteq> []"
    then have "\<not> isSpace (hd ?t)"
      by (rule hd_dropWhile)
    moreover have "hd ?t \<in> set ?t"
      using \<open>?t \<noteq> []\<close> by simp
    ultimately show False
      using all by blast
  qed
  then have "\<forall>c\<in>set (rev s). isSpace c"
    by (rule iffD1 [OF dropWhile_eq_Nil_conv])
  then show "list_all isSpace s"
    by (simp add: list_all_iff)
qed

lemma finishCommand_ready:
  "finishCommand context a ms startTime timeoutMs foundEnd w = (r, w')
   \<Longrightarrow> status (heap w' a) = S_ready"
  by (auto simp: finishCommand_def Let_def modify_def split: if_splits)

lemma finishCommand_timeout:
  "finishCommand context a ms startTime timeoutMs False w =
     (\<lparr>r_sessionId = sid (heap w a), r_command = command context, r_output = [],
       r_exitCode = None, r_success = False,
       r_duration = int (clock w) - int startTime, r_timedOut = True,
       r_error = Some (js ''Command timeout after '' @ showInt timeoutMs @ js ''ms'')\<rparr>,
      modify a (\<lambda>session. session\<lparr>status := S_ready\<rparr>) w)"
  by (simp add: finishCommand_def Let_def modify_def)

lemma awaitEnd_polls:
  "list_all (\<lambda>buffer. \<not> includes_str buffer endM) (polls a timeoutMs startTimeWait w)
   \<Longrightarrow> \<exists>w'. awaitEnd a endM timeoutMs startTimeWait w = (False, w')"
proof (induction a endM timeoutMs startTimeWait w rule: awaitEnd.induct)
  case (1 a endM timeoutMs startTimeWait w)
  show ?case
  proof (cases "int (clock w) - int startTimeWait < timeoutMs")
    case False
    then show ?thesis
      by (simp add: awaitEnd.simps [of a endM timeoutMs startTimeWait w])
  next
    case True
    with "1.prems" have here: "\<not> includes_str (outputBuffer (heap w a)) endM"
      and later: "list_all (\<lambda>buffer. \<not> includes_str buffer endM)
                    (polls a timeoutMs startTimeWait (sleep 100 w))"
      by (simp_all add: polls.simps [of a timeoutMs startTimeWait w])
    from "1.IH" [OF True here later] True here show ?thesis
      by (simp add: awaitEnd.simps [of a endM timeoutMs startTimeWait w])
  qed
qed

lemma filter_rev_upt_Nil: "filter P (rev [0..<m]) = [] \<longleftrightarrow> (\<forall>j<m. \<not> P j)"
  by (auto simp: filter_empty_conv)

lemma filter_rev_upt_Cons:
  "filter P (rev [0..<m]) = i # rest \<Longrightarrow> P i \<and> i < m \<and> (\<forall>j<m. P j \<longrightarrow> j \<le> i)"
proof (induction m arbitrary: i rest)
  case 0
  then show ?case by simp
next
  case (Suc m)
  show ?case
  proof (cases "P m")
    case True
    with Suc.prems have "i = m" by simp
    with True show ?thesis by auto
  next
    case False
    with Suc.prems have "filter P (rev [0..<m]) = i # rest" by simp
    from Suc.IH [OF this] False show ?thesis
      by (auto simp: less_Suc_eq)
  qed
qed

lemma lastIndexOf_None: "lastIndexOf s t = None \<longleftrightarrow> (\<forall>j. \<not> occurs_at t j s)"
proof -
  have "lastIndexOf s t = None \<longleftrightarrow> filter (\<lambda>i. prefix t (drop i s)) (rev [0..<Suc (length s)]) = []"
    by (simp add: lastIndexOf_def split: list.splits)
  also have "\<dots> \<longleftrightarrow> (\<forall>j<Suc (length s). \<not> prefix t (drop j s))"
    by (rule filter_rev_upt_Nil)
  also have "\<dots> \<longleftrightarrow> (\<forall>j. \<not> occurs_at t j s)"
    by (auto simp: occurs_at_def less_Suc_eq_le)
  finally show ?thesis .
qed

lemma lastIndexOf_Some: "lastIndexOf s t = Some i \<longleftrightarrow> last_occurrence t s i"
proof
  assume "lastIndexOf s t = Some i"
  then obtain rest where "filter (\<lambda>i. prefix t (drop i s)) (rev [0..<Suc (length s)]) = i # rest"
    by (auto simp: lastIndexOf_def split: list.splits)
  from filter_rev_upt_Cons [OF this] show "last_occurrence t s i"
    by (auto simp: last_occurrence_def occurs_at_def less_Suc_eq_le)
next
  assume l: "last_occurrence t s i"
  then have "\<not> (\<forall>j. \<not> occurs_at t j s)"
    by (auto simp: last_occurrence_def)
  then obtain k where k: "lastIndexOf s t = Some k"
    using lastIndexOf_None [of s t] by (cases "lastIndexOf s t") auto
  then obtain rest where "filter (\<lambda>i. prefix t (drop i s)) (rev [0..<Suc (length s)]) = k # rest"
    by (auto simp: lastIndexOf_def split: list.splits)
  from filter_rev_upt_Cons [OF this] have "occurs_at t k s" and "\<forall>j. occurs_at t j s \<longrightarrow> j \<le> k"
    by (auto simp: occurs_at_def less_Suc_eq_le)
  with l have "k = i"
    by (auto simp: last_occurrence_def intro: antisym)
  with k show "lastIndexOf s t = Some i" by simp
qed

lemma rx_exec_skip:
  "(\<forall>k<length pre. rx_match r (drop k (pre @ s)) = []) \<Longrightarrow> rx_exec r (pre @ s) = rx_exec r s"
proof (induction pre)
  case Nil
  then show ?case by simp
next
  case (Cons c pre)
  from Cons.prems have "rx_match r (c # pre @ s) = []"
    by (auto dest: spec [of _ 0])
  moreover from Cons.prems have "\<forall>k<length pre. rx_match r (drop k (pre @ s)) = []"
    by (auto dest: spec [of _ "Suc k" for k])
  ultimately show ?case
    using Cons.IH by simp
qed

lemma rx_exec_here: "rx_match r s = rest # others \<Longrightarrow> rx_exec r s = Some (s, rest)"
  by (cases s) auto

lemma rx_exec_None: "(\<forall>k\<le>length s. rx_match r (drop k s) = []) \<Longrightarrow> rx_exec r s = None"
proof (induction s)
  case Nil
  then show ?case by simp
next
  case (Cons c s)
  from Cons.prems have "rx_match r (c # s) = []"
    by (auto dest: spec [of _ 0])
  moreover from Cons.prems have "\<forall>k\<le>length s. rx_match r (drop k s) = []"
    by (auto dest: spec [of _ "Suc k" for k])
  ultimately show ?case
    using Cons.IH by simp
qed

text \<open>The exit marker followed by a digit, at the start of \<open>s\<close>.\<close>

lemma rx_match_exit_Nil:
  "rx_match (Seq (Lit m) (Plus isDigit)) s = [] \<longleftrightarrow>
     \<not> (\<exists>d post. s = m @ d # post \<and> isDigit d)"
proof (cases "prefix m s")
  case False
  then show ?thesis by (auto simp: prefix_def)
next
  case True
  then obtain t where s: "s = m @ t" by (auto simp: prefix_def)
  show ?thesis
  proof (cases t)
    case Nil
    with s show ?thesis by simp
  next
    case (Cons d post)
    with s show ?thesis by (cases "isDigit d") auto
  qed
qed

lemma rx_match_exit_digits:
  assumes "ds \<noteq> []" and "list_all isDigit ds" and "post = [] \<or> \<not> isDigit (hd post)"
  shows "\<exists>others. rx_match (Seq (Lit m) (Plus isDigit)) (m @ ds @ post) = post # others"
proof -
  from assms(2,3) have tw: "takeWhile isDigit (ds @ post) = ds"
    by (cases post) (auto simp: list_all_iff intro!: takeWhile_eq_all_conv [THEN iffD2])
  from assms(1) have "rev [1..<Suc (length ds)] = length ds # rev [1..<length ds]"
    by (cases ds) auto
  with tw show ?thesis by simp
qed

lemma exitCodeOf_none:
  assumes "\<forall>pre d post. buffer = pre @ m @ d # post \<longrightarrow> \<not> isDigit d"
  shows "exitCodeOf buffer m = Exact 0"
proof -
  have "rx_match (Seq (Lit m) (Plus isDigit)) (drop k buffer) = []" for k
  proof -
    have "\<not> (\<exists>d post. drop k buffer = m @ d # post \<and> isDigit d)"
    proof
      assume "\<exists>d post. drop k buffer = m @ d # post \<and> isDigit d"
      then obtain d post where "drop k buffer = m @ d # post" and d: "isDigit d" by blast
      then have "buffer = take k buffer @ m @ d # post"
        by (metis append_take_drop_id)
      with assms d show False by blast
    qed
    then show ?thesis using rx_match_exit_Nil [of m "drop k buffer"] by blast
  qed
  then have "rx_exec (Seq (Lit m) (Plus isDigit)) buffer = None"
    by (intro rx_exec_None) blast
  then show ?thesis by (simp add: exitCodeOf_def)
qed

lemma exitCodeOf_digits:
  assumes "exit_digits buffer m ds"
  shows "exitCodeOf buffer m = parseInt ds"
proof -
  from assms obtain pre post where b: "buffer = pre @ m @ ds @ post" and ne: "ds \<noteq> []"
    and dg: "list_all isDigit ds" and stop: "post = [] \<or> \<not> isDigit (hd post)"
    and first: "\<forall>pre' d post'. buffer = pre' @ m @ d # post' \<and> isDigit d \<longrightarrow> length pre \<le> length pre'"
    by (auto simp: exit_digits_def)
  let ?r = "Seq (Lit m) (Plus isDigit)"
  have "rx_match ?r (drop k (pre @ m @ ds @ post)) = []" if "k < length pre" for k
  proof -
    have "\<not> (\<exists>d post'. drop k buffer = m @ d # post' \<and> isDigit d)"
    proof
      assume "\<exists>d post'. drop k buffer = m @ d # post' \<and> isDigit d"
      then obtain d post' where "drop k buffer = m @ d # post'" and d: "isDigit d" by blast
      then have "buffer = take k buffer @ m @ d # post'"
        by (metis append_take_drop_id)
      with first d have "length pre \<le> length (take k buffer)" by blast
      with that b show False by simp
    qed
    then show ?thesis using rx_match_exit_Nil [of m "drop k buffer"] unfolding b by blast
  qed
  then have "rx_exec ?r buffer = rx_exec ?r (m @ ds @ post)"
    unfolding b by (intro rx_exec_skip) blast
  moreover from rx_match_exit_digits [OF ne dg stop] obtain others
    where "rx_match ?r (m @ ds @ post) = post # others" by blast
  then have "rx_exec ?r (m @ ds @ post) = Some (m @ ds @ post, post)"
    by (rule rx_exec_here)
  ultimately show ?thesis
    by (simp add: exitCodeOf_def)
qed

lemma decimal_snoc: "decimal (ds @ [d]) = 10 * decimal ds + (d - 48)"
proof -
  have "(\<Sum>i<length ds. ((ds @ [d]) ! i - 48) * 10 ^ (length (ds @ [d]) - Suc i))
      = (\<Sum>i<length ds. 10 * ((ds ! i - 48) * 10 ^ (length ds - Suc i)))"
  proof (rule sum.cong)
    fix i assume "i \<in> {..<length ds}"
    then have i: "i < length ds" by simp
    then have "length (ds @ [d]) - Suc i = Suc (length ds - Suc i)" by simp
    with i show "((ds @ [d]) ! i - 48) * 10 ^ (length (ds @ [d]) - Suc i)
        = 10 * ((ds ! i - 48) * 10 ^ (length ds - Suc i))"
      by (simp add: nth_append)
  qed simp
  then show ?thesis
    by (simp add: decimal_def sum_distrib_left)
qed

lemma foldl_decimal: "foldl (\<lambda>acc c. 10 * acc + (c - 48)) 0 ds = decimal ds"
proof (induction ds rule: rev_induct)
  case Nil
  then show ?case by (simp add: decimal_def)
next
  case (snoc d ds)
  then show ?case by (simp add: decimal_snoc)
qed

lemma text_between_take_drop:
  assumes "lo \<le> hi" and "hi \<le> length s"
  shows "text_between lo hi s (take (hi - lo) (drop lo s))"
proof -
  have "s = take lo s @ take (hi - lo) (drop lo s) @ drop (hi - lo) (drop lo s)"
    by (simp only: append_take_drop_id)
  moreover from assms have "length (take lo s) = lo"
    by simp
  moreover from assms have "length (take lo s @ take (hi - lo) (drop lo s)) = hi"
    by simp
  ultimately show ?thesis
    unfolding text_between_def by blast
qed

lemma substring_between:
  assumes "a \<le> length s" and "b \<le> length s"
  shows "text_between (min a b) (max a b) s (substring a b s)"
proof (cases "a \<le> b")
  case True
  with assms have "substring a b s = take (b - a) (drop a s)"
    by (simp add: substring_def Let_def)
  moreover from True assms have "text_between a b s (take (b - a) (drop a s))"
    by (simp add: text_between_take_drop)
  ultimately show ?thesis
    using True by (simp add: min_absorb1 max_absorb2)
next
  case False
  with assms have "substring a b s = take (a - b) (drop b s)"
    by (simp add: substring_def Let_def min_def max_def)
  moreover from False assms have "text_between b a s (take (a - b) (drop b s))"
    by (simp add: text_between_take_drop)
  ultimately show ?thesis
    using False by (simp add: min_def max_def)
qed

lemma text_between_unique:
  "text_between lo hi s x \<Longrightarrow> text_between lo hi s y \<Longrightarrow> x = y"
proof -
  assume "text_between lo hi s x" and "text_between lo hi s y"
  then obtain p q p' q' where x: "s = p @ x @ q" "length p = lo" "length (p @ x) = hi"
    and y: "s = p' @ y @ q'" "length p' = lo" "length (p' @ y) = hi"
    unfolding text_between_def by blast
  from x(1,2) y(1,2) have "p = p'" and r: "x @ q = y @ q'"
    by (metis append_eq_append_conv)+
  moreover from x(2,3) y(2,3) have "length x = length y"
    by simp
  ultimately show "x = y"
    by (metis append_eq_append_conv)
qed

lemma occurs_at_bound: "occurs_at t i s \<Longrightarrow> i + length t \<le> length s"
proof -
  assume "occurs_at t i s"
  then have i: "i \<le> length s" and p: "prefix t (drop i s)"
    by (simp_all add: occurs_at_def)
  from p have "length t \<le> length (drop i s)"
    by (rule prefix_length_le)
  then have "length t \<le> length s - i"
    by simp
  with i show ?thesis
    by arith
qed

lemma parseInt_decimal:
  "parseInt ds = (if decimal ds \<le> 2 ^ 53 then Exact (int (decimal ds)) else Rounded)"
  by (simp add: parseInt_def foldl_decimal Let_def)

lemma rx_exec_SomeD:
  "rx_exec r s = Some (at, rest)
   \<Longrightarrow> \<exists>pre others. s = pre @ at \<and> rx_match r at = rest # others
         \<and> (\<forall>k<length pre. rx_match r (drop k s) = [])"
proof (induction s)
  case Nil
  then show ?case by (auto split: list.splits)
next
  case (Cons c s)
  show ?case
  proof (cases "rx_match r (c # s)")
    case Nil
    with Cons.prems have "rx_exec r s = Some (at, rest)" by simp
    from Cons.IH [OF this] obtain pre others where s: "s = pre @ at"
      and m: "rx_match r at = rest # others"
      and skip: "\<forall>k<length pre. rx_match r (drop k s) = []"
      by blast
    have "\<forall>k<length (c # pre). rx_match r (drop k (c # s)) = []"
    proof (intro allI impI)
      fix k assume "k < length (c # pre)"
      with Nil skip show "rx_match r (drop k (c # s)) = []"
        by (cases k) auto
    qed
    with s m have "c # s = (c # pre) @ at \<and> rx_match r at = rest # others
        \<and> (\<forall>k<length (c # pre). rx_match r (drop k (c # s)) = [])"
      by simp
    then show ?thesis by blast
  next
    case (Cons rest' others)
    with Cons.prems have "at = c # s" and "rest = rest'" by simp_all
    with Cons have "c # s = [] @ at \<and> rx_match r at = rest # others
        \<and> (\<forall>k<length ([] :: jsstring). rx_match r (drop k (c # s)) = [])"
      by simp
    then show ?thesis by blast
  qed
qed

lemma exit_digits_exec:
  assumes "rx_exec (Seq (Lit m) (Plus isDigit)) buffer = Some (at, rest)"
  shows "exit_digits buffer m (take (length at - length m - length rest) (drop (length m) at))"
proof -
  let ?r = "Seq (Lit m) (Plus isDigit)"
  from rx_exec_SomeD [OF assms] obtain pre others where b: "buffer = pre @ at"
    and ma: "rx_match ?r at = rest # others"
    and skip: "\<forall>k<length pre. rx_match ?r (drop k buffer) = []"
    by blast
  from ma have "rx_match ?r at \<noteq> []" by simp
  then obtain d post0 where at: "at = m @ d # post0" and d: "isDigit d"
    using rx_match_exit_Nil [of m at] by blast
  let ?t = "d # post0"
  let ?ds = "takeWhile isDigit ?t"
  let ?post = "dropWhile isDigit ?t"
  have split: "?t = ?ds @ ?post" by simp
  from d have ne: "?ds \<noteq> []" by simp
  have dg: "list_all isDigit ?ds"
    by (auto simp: list_all_iff dest: set_takeWhileD)
  have stop: "?post = [] \<or> \<not> isDigit (hd ?post)"
    using hd_dropWhile [of isDigit ?t] by blast
  from rx_match_exit_digits [OF ne dg stop, of m] ma at split
  have rest: "rest = ?post"
    by (metis list.inject)
  have "length ?t = length ?ds + length ?post"
    by (metis split length_append)
  then have "length at - length m - length rest = length ?ds"
    by (simp add: at rest)
  then have cap: "take (length at - length m - length rest) (drop (length m) at) = ?ds"
    by (simp only: at append_eq_conv_conj drop_append) (metis append_eq_conv_conj split diff_self_eq_0 drop0 drop_all order_refl append_Nil)
  have first: "length pre \<le> length pre'"
    if "buffer = pre' @ m @ d' # post'" and "isDigit d'" for pre' d' post'
  proof (rule ccontr)
    assume "\<not> length pre \<le> length pre'"
    then have "length pre' < length pre" by simp
    with skip have "rx_match ?r (drop (length pre') buffer) = []" by blast
    moreover have "drop (length pre') buffer = m @ d' # post'"
      using that(1) by simp
    ultimately show False
      using rx_match_exit_Nil [of m "m @ d' # post'"] that(2) by auto
  qed
  have "buffer = pre @ m @ ?ds @ ?post"
    using b at split by (metis append_assoc)
  with ne dg stop first show ?thesis
    unfolding cap exit_digits_def by blast
qed

text \<open>
  C5: a command that is empty or holds white space only fails with \<open>COMMAND_EMPTY\<close>, and
  the world the call leaves is the world it found: the map of the store and every session
  object, so the buffer, the status and the last command of the target session too.
\<close>

theorem executeCommand_blank_command:
  "list_all isSpace (command context)
   \<Longrightarrow> executeCommand config backend context w = (Inl COMMAND_EMPTY, w)"
  by (simp add: executeCommand_def trim_Nil_iff)

theorem executeCommand_blank_command_witness:
  "list_all isSpace [32, 9]
   \<and> executeCommand DEFAULT_CONFIG okBackend
         \<lparr>sessionId = None, command = [32, 9], timeout = None\<rparr> (oneSession S_busy)
       = (Inl COMMAND_EMPTY, oneSession S_busy)"
proof -
  have h: "list_all isSpace (command \<lparr>sessionId = None, command = [32, 9], timeout = None\<rparr>)"
    by (simp add: js_eval)
  show ?thesis
    using h executeCommand_blank_command [OF h, of DEFAULT_CONFIG okBackend "oneSession S_busy"]
    by simp
qed

text \<open>
  C1: when the command is not blank, so that the call goes on to resolve its session,
  and the resolved session is busy, the call fails with \<open>SESSION_BUSY\<close>; when it is closed,
  with \<open>SESSION_CLOSED\<close>. And whenever the call returns a result, on the success path or
  on the timeout path, the status of the session it ran on is \<open>ready\<close> in the world it
  leaves.
\<close>

theorem executeCommand_status:
  "(\<not> list_all isSpace (command context)
      \<and> getOrCreateSession config backend (sessionId context) noOptions w = (Inr a, w1)
      \<and> status (heap w1 a) = S_busy
    \<longrightarrow> executeCommand config backend context w
          = (Inl (SESSION_BUSY (orElse (sessionId context) (js ''default''))), w1))
 \<and> (\<not> list_all isSpace (command context)
      \<and> getOrCreateSession config backend (sessionId context) noOptions w = (Inr a, w1)
      \<and> status (heap w1 a) = S_closed
    \<longrightarrow> executeCommand config backend context w
          = (Inl (SESSION_CLOSED (orElse (sessionId context) (js ''default''))), w1))
 \<and> (executeCommand config backend context w = (Inr r, w')
    \<longrightarrow> (\<exists>a w1. getOrCreateSession config backend (sessionId context) noOptions w = (Inr a, w1)
          \<and> status (heap w' a) = S_ready))"
proof (intro conjI impI)
  assume "\<not> list_all isSpace (command context)
      \<and> getOrCreateSession config backend (sessionId context) noOptions w = (Inr a, w1)
      \<and> status (heap w1 a) = S_busy"
  then show "executeCommand config backend context w
          = (Inl (SESSION_BUSY (orElse (sessionId context) (js ''default''))), w1)"
    by (auto simp: executeCommand_def trim_Nil_iff)
next
  assume "\<not> list_all isSpace (command context)
      \<and> getOrCreateSession config backend (sessionId context) noOptions w = (Inr a, w1)
      \<and> status (heap w1 a) = S_closed"
  then show "executeCommand config backend context w
          = (Inl (SESSION_CLOSED (orElse (sessionId context) (js ''default''))), w1)"
    by (auto simp: executeCommand_def trim_Nil_iff)
next
  assume "executeCommand config backend context w = (Inr r, w')"
  then show "\<exists>a w1. getOrCreateSession config backend (sessionId context) noOptions w = (Inr a, w1)
          \<and> status (heap w' a) = S_ready"
    by (auto simp: executeCommand_def Let_def split: if_splits prod.splits sum.splits
        dest: finishCommand_ready)
qed

theorem executeCommand_status_witness:
  "executeCommand DEFAULT_CONFIG okBackend lsContext (oneSession S_busy)
     = (Inl (SESSION_BUSY (js ''default'')), oneSession S_busy)
   \<and> executeCommand DEFAULT_CONFIG okBackend lsContext (oneSession S_closed)
     = (Inl (SESSION_CLOSED (js ''default'')), oneSession S_closed)
   \<and> (\<exists>r w' a w1. executeCommand DEFAULT_CONFIG okBackend lsContext emptyWorld = (Inr r, w')
         \<and> getOrCreateSession DEFAULT_CONFIG okBackend (sessionId lsContext) noOptions emptyWorld
             = (Inr a, w1)
         \<and> status (heap w' a) = S_ready)"
proof -
  have nb: "\<not> list_all isSpace (command lsContext)"
    by (simp add: lsContext_def js_eval)
  have g: "getOrCreateSession DEFAULT_CONFIG okBackend (sessionId lsContext) noOptions (oneSession st)
             = (Inr 0, oneSession st)" for st
    by (simp add: getOrCreateSession_def lsContext_def oneSession_def store_get_def Let_def js_eval)
  have st: "status (heap (oneSession st) 0) = st" for st
    by (simp add: oneSession_def)
  have d: "orElse (sessionId lsContext) (js ''default'') = js ''default''"
    by (simp add: orElse_def lsContext_def)
  note inst = executeCommand_status [of lsContext DEFAULT_CONFIG okBackend]
  have busy: "executeCommand DEFAULT_CONFIG okBackend lsContext (oneSession S_busy)
     = (Inl (SESSION_BUSY (js ''default'')), oneSession S_busy)"
    using inst [of "oneSession S_busy" 0 "oneSession S_busy"] nb g st d
    by simp
  have closed: "executeCommand DEFAULT_CONFIG okBackend lsContext (oneSession S_closed)
     = (Inl (SESSION_CLOSED (js ''default'')), oneSession S_closed)"
    using inst [of "oneSession S_closed" 0 "oneSession S_closed"] nb g st d
    by simp
  have "\<exists>r w'. executeCommand DEFAULT_CONFIG okBackend lsContext emptyWorld = (Inr r, w')"
    by (simp add: world_eval js_eval cong: let_weak_cong prod.case_cong_weak)
  then obtain r w'
    where e: "executeCommand DEFAULT_CONFIG okBackend lsContext emptyWorld = (Inr r, w')"
    by blast
  with inst [of emptyWorld _ _ r w']
  have "\<exists>a w1. getOrCreateSession DEFAULT_CONFIG okBackend (sessionId lsContext) noOptions
             emptyWorld = (Inr a, w1) \<and> status (heap w' a) = S_ready"
    by blast
  with e busy closed show ?thesis
    by blast
qed

text \<open>
  C2: the command is accepted and, at every instant at which the loop looks before the
  timeout has elapsed, the buffer does not include the end marker. Then the call returns,
  without an error, the result with the empty output, no exit code, \<open>success\<close> false and
  \<open>timedOut\<close> true, whatever the buffer holds, and the session is ready again.
\<close>

theorem executeCommand_timeout:
  assumes "\<not> list_all isSpace (command context)"
    and "getOrCreateSession config backend (sessionId context) noOptions w = (Inr a, w1)"
    and "status (heap w1 a) \<noteq> S_busy" and "status (heap w1 a) \<noteq> S_closed"
    and "startCommand context a w1 = (ms, w2)"
    and "list_all (\<lambda>buffer. \<not> includes_str buffer (endMarker ms))
           (polls a (orElseNum (timeout context) (defaultTimeout config)) (clock w2) w2)"
  shows "\<exists>w'. executeCommand config backend context w =
           (Inr \<lparr>r_sessionId = sid (heap w' a), r_command = command context, r_output = [],
                 r_exitCode = None, r_success = False,
                 r_duration = int (clock w') - int (clock w1), r_timedOut = True,
                 r_error = Some (js ''Command timeout after ''
                   @ showInt (orElseNum (timeout context) (defaultTimeout config)) @ js ''ms'')\<rparr>,
            w')
         \<and> status (heap w' a) = S_ready"
proof -
  let ?t = "orElseNum (timeout context) (defaultTimeout config)"
  from awaitEnd_polls [OF assms(6)] obtain w3
    where aw: "awaitEnd a (endMarker ms) ?t (clock w2) w2 = (False, w3)"
    by blast
  from assms(1) have ne: "command context \<noteq> []"
    by auto
  let ?w' = "modify a (\<lambda>session. session\<lparr>status := S_ready\<rparr>) w3"
  have "executeCommand config backend context w =
           (Inr \<lparr>r_sessionId = sid (heap ?w' a), r_command = command context, r_output = [],
                 r_exitCode = None, r_success = False,
                 r_duration = int (clock ?w') - int (clock w1), r_timedOut = True,
                 r_error = Some (js ''Command timeout after '' @ showInt ?t @ js ''ms'')\<rparr>,
            ?w')"
    using assms(1-5) aw ne
    by (simp add: executeCommand_def trim_Nil_iff finishCommand_timeout Let_def modify_def)
  moreover have "status (heap ?w' a) = S_ready"
    by (simp add: modify_def)
  ultimately show ?thesis
    by blast
qed

theorem executeCommand_timeout_witness:
  "\<exists>w'. executeCommand DEFAULT_CONFIG okBackend slowContext silentWorld =
           (Inr \<lparr>r_sessionId = sid (heap w' 0), r_command = js ''ls'', r_output = [],
                 r_exitCode = None, r_success = False,
                 r_duration = int (clock w') - 1000, r_timedOut = True,
                 r_error = Some (js ''Command timeout after 200ms'')\<rparr>,
            w')
         \<and> status (heap w' 0) = S_ready"
proof -
  let ?ms = "fst (startCommand slowContext 0 silentWorld)"
  let ?w2 = "snd (startCommand slowContext 0 silentWorld)"
  have h1: "\<not> list_all isSpace (command slowContext)"
    by (simp add: shell_eval js_eval)
  have h2: "getOrCreateSession DEFAULT_CONFIG okBackend (sessionId slowContext) noOptions
      silentWorld = (Inr 0, silentWorld)"
    by (simp add: shell_eval world_eval js_eval)
  have h3: "status (heap silentWorld 0) \<noteq> S_busy"
    and h4: "status (heap silentWorld 0) \<noteq> S_closed"
    by (simp_all add: shell_eval oneSession_def)
  have h5: "startCommand slowContext 0 silentWorld = (?ms, ?w2)"
    by simp
  have h6: "list_all (\<lambda>buffer. \<not> includes_str buffer (endMarker ?ms))
      (polls 0 (orElseNum (timeout slowContext) (defaultTimeout DEFAULT_CONFIG)) (clock ?w2) ?w2)"
    by (simp add: shell_eval world_eval js_eval cong: let_weak_cong prod.case_cong_weak)
  have cmd: "command slowContext = js ''ls''"
    and tm: "orElseNum (timeout slowContext) (defaultTimeout DEFAULT_CONFIG) = 200"
    and c: "int (clock silentWorld) = 1000"
    and msg: "js ''Command timeout after '' @ showInt 200 @ js ''ms''
      = js ''Command timeout after 200ms''"
    by (simp_all add: shell_eval world_eval js_eval)
  from executeCommand_timeout [OF h1 h2 h3 h4 h5 h6] show ?thesis
    unfolding cmd tm c msg .
qed

text \<open>
  C3: the end marker has been found, and \<open>buffer\<close> is the capture buffer after the 200 ms
  that follow. When the start marker or the end marker does not occur in it, or the last
  start marker does not begin before the last end marker, the result is the whole cleaned
  buffer with exit code 0 and \<open>success\<close> true. Otherwise the output is cleaned from the text
  of the buffer that lies between the end of the last start marker and the beginning of
  the last end marker, \<open>success\<close> says that the exit code is 0, and the exit code is 0 when
  the exit marker is nowhere followed by a digit, and else the number written in decimal
  by the digits that follow the exit marker where it is first followed by one (a double:
  the number itself up to \<open>2 ^ 53\<close>).
\<close>

theorem executeCommand_parse:
  assumes "\<not> list_all isSpace (command context)"
    and "getOrCreateSession config backend (sessionId context) noOptions w = (Inr a, w1)"
    and "status (heap w1 a) \<noteq> S_busy" and "status (heap w1 a) \<noteq> S_closed"
    and "startCommand context a w1 = (ms, w2)"
    and "awaitEnd a (endMarker ms) (orElseNum (timeout context) (defaultTimeout config))
           (clock w2) w2 = (True, w3)"
    and "buffer = outputBuffer (heap w3 a)"
  shows "\<exists>r w'. executeCommand config backend context w = (Inr r, w') \<and> \<not> r_timedOut r
     \<and> ((\<forall>i. \<not> occurs_at (startMarker ms) i buffer) \<or> (\<forall>j. \<not> occurs_at (endMarker ms) j buffer)
          \<or> (\<exists>i j. last_occurrence (startMarker ms) buffer i
                \<and> last_occurrence (endMarker ms) buffer j \<and> j \<le> i)
         \<longrightarrow> r_output r = cleanOutput buffer \<and> r_exitCode r = Some (Exact 0) \<and> r_success r)
     \<and> (\<forall>i j. last_occurrence (startMarker ms) buffer i
                \<and> last_occurrence (endMarker ms) buffer j \<and> i < j
         \<longrightarrow> (\<exists>mid. text_between (min (i + length (startMarker ms)) j)
                         (max (i + length (startMarker ms)) j) buffer mid
                 \<and> r_output r = cleanPrompt (cleanCommandEcho (cleanMarkers (cleanOutput mid) ms)
                                   (command context)))
           \<and> r_success r = (r_exitCode r = Some (Exact 0))
           \<and> ((\<forall>pre d post. buffer = pre @ exitMarker ms @ d # post \<longrightarrow> \<not> isDigit d)
                \<longrightarrow> r_exitCode r = Some (Exact 0))
           \<and> (\<forall>ds. exit_digits buffer (exitMarker ms) ds
                \<longrightarrow> r_exitCode r
                    = Some (if decimal ds \<le> 2 ^ 53 then Exact (int (decimal ds)) else Rounded)))"
proof -
  let ?t = "orElseNum (timeout context) (defaultTimeout config)"
  let ?w' = "modify a (\<lambda>session. session\<lparr>status := S_ready\<rparr>) w3"
  from assms(1) have ne: "command context \<noteq> []"
    by auto
  have buf: "outputBuffer (heap ?w' a) = buffer"
    by (simp add: assms(7) modify_def)
  obtain r w' where f: "finishCommand context a ms (clock w1) ?t True w3 = (r, w')"
    by (cases "finishCommand context a ms (clock w1) ?t True w3")
  have e: "executeCommand config backend context w = (Inr r, w')"
    using assms(1-6) ne f by (simp add: executeCommand_def trim_Nil_iff)
  have notimeout: "\<not> r_timedOut r"
    using f by (auto simp: finishCommand_def Let_def split: if_splits)
  have fallback: "r_output r = cleanOutput buffer \<and> r_exitCode r = Some (Exact 0) \<and> r_success r"
    if "lastIndexOf buffer (startMarker ms) = None \<or> lastIndexOf buffer (endMarker ms) = None
        \<or> the (lastIndexOf buffer (startMarker ms)) \<ge> the (lastIndexOf buffer (endMarker ms))"
    using f that buf by (auto simp: finishCommand_def Let_def split: if_splits)
  have parsed: "r_output r = cleanPrompt (cleanCommandEcho (cleanMarkers (cleanOutput
                  (substring (i + length (startMarker ms)) j buffer)) ms) (command context))
           \<and> r_exitCode r = Some (exitCodeOf buffer (exitMarker ms))
           \<and> r_success r = (exitCodeOf buffer (exitMarker ms) = Exact 0)"
    if "lastIndexOf buffer (startMarker ms) = Some i" and "lastIndexOf buffer (endMarker ms) = Some j"
      and "i < j" for i j
    using f that buf by (auto simp: finishCommand_def Let_def split: if_splits)
  have A: "r_output r = cleanOutput buffer \<and> r_exitCode r = Some (Exact 0) \<and> r_success r"
    if "(\<forall>i. \<not> occurs_at (startMarker ms) i buffer) \<or> (\<forall>j. \<not> occurs_at (endMarker ms) j buffer)
          \<or> (\<exists>i j. last_occurrence (startMarker ms) buffer i
                \<and> last_occurrence (endMarker ms) buffer j \<and> j \<le> i)"
    using that fallback by (auto simp: lastIndexOf_None [symmetric] lastIndexOf_Some [symmetric])
  have B: "(\<exists>mid. text_between (min (i + length (startMarker ms)) j)
                         (max (i + length (startMarker ms)) j) buffer mid
                 \<and> r_output r = cleanPrompt (cleanCommandEcho (cleanMarkers (cleanOutput mid) ms)
                                   (command context)))
           \<and> r_success r = (r_exitCode r = Some (Exact 0))
           \<and> ((\<forall>pre d post. buffer = pre @ exitMarker ms @ d # post \<longrightarrow> \<not> isDigit d)
                \<longrightarrow> r_exitCode r = Some (Exact 0))
           \<and> (\<forall>ds. exit_digits buffer (exitMarker ms) ds
                \<longrightarrow> r_exitCode r
                    = Some (if decimal ds \<le> 2 ^ 53 then Exact (int (decimal ds)) else Rounded))"
    if lo: "last_occurrence (startMarker ms) buffer i \<and> last_occurrence (endMarker ms) buffer j \<and> i < j"
    for i j
  proof -
    from lo have "occurs_at (startMarker ms) i buffer" and "occurs_at (endMarker ms) j buffer"
      by (simp_all add: last_occurrence_def)
    then have "i + length (startMarker ms) \<le> length buffer" and "j \<le> length buffer"
      by (simp_all add: occurs_at_bound) (simp add: occurs_at_def)
    then have "text_between (min (i + length (startMarker ms)) j)
        (max (i + length (startMarker ms)) j) buffer
        (substring (i + length (startMarker ms)) j buffer)"
      by (rule substring_between)
    moreover from parsed [of i j] lo
    have p: "r_output r = cleanPrompt (cleanCommandEcho (cleanMarkers (cleanOutput
                  (substring (i + length (startMarker ms)) j buffer)) ms) (command context))"
      and c: "r_exitCode r = Some (exitCodeOf buffer (exitMarker ms))"
      and k: "r_success r = (exitCodeOf buffer (exitMarker ms) = Exact 0)"
      by (simp_all add: lastIndexOf_Some)
    ultimately have "\<exists>mid. text_between (min (i + length (startMarker ms)) j)
                         (max (i + length (startMarker ms)) j) buffer mid
                 \<and> r_output r = cleanPrompt (cleanCommandEcho (cleanMarkers (cleanOutput mid) ms)
                                   (command context))"
      by blast
    moreover from c k have "r_success r = (r_exitCode r = Some (Exact 0))"
      by simp
    moreover from c have "(\<forall>pre d post. buffer = pre @ exitMarker ms @ d # post \<longrightarrow> \<not> isDigit d)
                \<longrightarrow> r_exitCode r = Some (Exact 0)"
      by (simp add: exitCodeOf_none)
    moreover from c have "\<forall>ds. exit_digits buffer (exitMarker ms) ds
                \<longrightarrow> r_exitCode r
                    = Some (if decimal ds \<le> 2 ^ 53 then Exact (int (decimal ds)) else Rounded)"
      by (simp add: exitCodeOf_digits parseInt_decimal)
    ultimately show ?thesis
      by blast
  qed
  from e notimeout A B show ?thesis by blast
qed

theorem executeCommand_parse_witness:
  "\<exists>r w'. executeCommand DEFAULT_CONFIG okBackend buildContext buildWorld = (Inr r, w')
     \<and> r_output r = js ''step 1 failed'' \<and> r_exitCode r = Some (Exact 12) \<and> \<not> r_success r
     \<and> \<not> r_timedOut r"
proof -
  let ?ms = "markersAt 1100"
  let ?w2 = "snd (startCommand buildContext 0 buildWorld)"
  let ?t = "orElseNum (timeout buildContext) (defaultTimeout DEFAULT_CONFIG)"
  let ?w3 = "snd (awaitEnd 0 (endMarker ?ms) ?t (clock ?w2) ?w2)"
  let ?mid = "[10] @ js ''step 1 failed'' @ [10] @ js ''===EXIT1100===12'' @ [10]"
  have h1: "\<not> list_all isSpace (command buildContext)"
    by (simp add: shell_eval js_eval)
  have h2: "getOrCreateSession DEFAULT_CONFIG okBackend (sessionId buildContext) noOptions
      buildWorld = (Inr 0, buildWorld)"
    by (simp add: shell_eval world_eval js_eval)
  have h3: "status (heap buildWorld 0) \<noteq> S_busy"
    and h4: "status (heap buildWorld 0) \<noteq> S_closed"
    by (simp_all add: shell_eval oneSession_def)
  have "fst (startCommand buildContext 0 buildWorld) = ?ms"
    by (simp add: shell_eval world_eval js_eval cong: let_weak_cong prod.case_cong_weak)
  then have h5: "startCommand buildContext 0 buildWorld = (?ms, ?w2)"
    by (metis prod.collapse)
  have "fst (awaitEnd 0 (endMarker ?ms) ?t (clock ?w2) ?w2)"
    by (simp add: shell_eval world_eval js_eval cong: let_weak_cong prod.case_cong_weak)
  then have h6: "awaitEnd 0 (endMarker ?ms) ?t (clock ?w2) ?w2 = (True, ?w3)"
    by (metis prod.collapse)
  have b: "buildOut = outputBuffer (heap ?w3 0)"
    by (simp add: shell_eval world_eval js_eval cong: let_weak_cong prod.case_cong_weak)
  have s: "last_occurrence (startMarker ?ms) buildOut 10"
    and e: "last_occurrence (endMarker ?ms) buildOut 57"
    unfolding lastIndexOf_Some [symmetric] by (simp_all add: shell_eval world_eval js_eval)
  have "rx_exec (Seq (Lit (exitMarker ?ms)) (Plus isDigit)) buildOut
      = Some (drop 40 buildOut, drop 56 buildOut)"
    by (simp add: shell_eval world_eval js_eval)
  from exit_digits_exec [OF this] have x: "exit_digits buildOut (exitMarker ?ms) (js ''12'')"
    by (simp add: shell_eval world_eval js_eval)
  have d: "decimal (js ''12'') = 12"
    by (simp add: foldl_decimal [symmetric] js_eval)
  have "buildOut = (js ''late line'' @ [10] @ js ''===START1100==='') @ ?mid
      @ (js ''===END1100==='' @ [10] @ js ''user@host:~$ '')"
    by (simp add: shell_eval)
  moreover have "length (js ''late line'' @ [10] @ js ''===START1100==='')
      = min (10 + length (startMarker ?ms)) 57"
    and "length ((js ''late line'' @ [10] @ js ''===START1100==='') @ ?mid)
      = max (10 + length (startMarker ?ms)) 57"
    by (simp_all add: world_eval js_eval)
  ultimately have tb: "text_between (min (10 + length (startMarker ?ms)) 57)
      (max (10 + length (startMarker ?ms)) 57) buildOut ?mid"
    unfolding text_between_def by blast
  have out: "cleanPrompt (cleanCommandEcho (cleanMarkers (cleanOutput ?mid) ?ms)
      (command buildContext)) = js ''step 1 failed''"
    by (simp add: shell_eval world_eval cleanOutput_def cleanMarkers_def markerCallback_def
        cleanCommandEcho_def cleanPrompt_def promptCallback_def rx_test_def js_eval
        cong: let_weak_cong)
  from executeCommand_parse [OF h1 h2 h3 h4 h5 h6 b]
  obtain r w' where
    ex: "executeCommand DEFAULT_CONFIG okBackend buildContext buildWorld = (Inr r, w')"
    and nt: "\<not> r_timedOut r"
    and B: "\<forall>i j. last_occurrence (startMarker ?ms) buildOut i
                \<and> last_occurrence (endMarker ?ms) buildOut j \<and> i < j
         \<longrightarrow> (\<exists>mid. text_between (min (i + length (startMarker ?ms)) j)
                         (max (i + length (startMarker ?ms)) j) buildOut mid
                 \<and> r_output r = cleanPrompt (cleanCommandEcho (cleanMarkers (cleanOutput mid) ?ms)
                                   (command buildContext)))
           \<and> r_success r = (r_exitCode r = Some (Exact 0))
           \<and> ((\<forall>pre d post. buildOut = pre @ exitMarker ?ms @ d # post \<longrightarrow> \<not> isDigit d)
                \<longrightarrow> r_exitCode r = Some (Exact 0))
           \<and> (\<forall>ds. exit_digits buildOut (exitMarker ?ms) ds
                \<longrightarrow> r_exitCode r
                    = Some (if decimal ds \<le> 2 ^ 53 then Exact (int (decimal ds)) else Rounded))"
    by blast
  have "(10::nat) < 57"
    by simp
  with B s e have C: "(\<exists>mid. text_between (min (10 + length (startMarker ?ms)) 57)
                         (max (10 + length (startMarker ?ms)) 57) buildOut mid
                 \<and> r_output r = cleanPrompt (cleanCommandEcho (cleanMarkers (cleanOutput mid) ?ms)
                                   (command buildContext)))
           \<and> r_success r = (r_exitCode r = Some (Exact 0))
           \<and> (\<forall>ds. exit_digits buildOut (exitMarker ?ms) ds
                \<longrightarrow> r_exitCode r
                    = Some (if decimal ds \<le> 2 ^ 53 then Exact (int (decimal ds)) else Rounded))"
    by blast
  then obtain mid where m: "text_between (min (10 + length (startMarker ?ms)) 57)
                         (max (10 + length (startMarker ?ms)) 57) buildOut mid"
    and o: "r_output r = cleanPrompt (cleanCommandEcho (cleanMarkers (cleanOutput mid) ?ms)
                                   (command buildContext))"
    by blast
  from m tb have "mid = ?mid"
    by (rule text_between_unique)
  with o out have 1: "r_output r = js ''step 1 failed''"
    by simp
  from C x have "r_exitCode r
      = Some (if decimal (js ''12'') \<le> 2 ^ 53 then Exact (int (decimal (js ''12''))) else Rounded)"
    by blast
  then have 2: "r_exitCode r = Some (Exact 12)"
    unfolding d by simp
  with C have 3: "\<not> r_success r"
    by simp
  from ex nt 1 2 3 show ?thesis
    by blast
qed

section \<open>Properties of the Session Store\<close>

lemma store_get_None: "store_get m k = None \<longleftrightarrow> k \<notin> set (map fst m)"
  by (simp add: store_get_def map_of_eq_None_iff)

lemma store_set_new: "store_get m k = None \<Longrightarrow> store_size (store_set k a m) = store_size m + 1"
  by (simp add: store_get_None store_set_def store_size_def)

lemma store_delete_size:
  "distinct (map fst m) \<Longrightarrow> store_get m k = Some a
   \<Longrightarrow> store_size (store_delete k m) = store_size m - 1"
proof (induction m)
  case Nil
  then show ?case by (simp add: store_get_def)
next
  case (Cons p m)
  obtain k' a' where p: "p = (k', a')" by (cases p)
  show ?case
  proof (cases "k' = k")
    case True
    with Cons.prems p have "k \<notin> set (map fst m)" by simp
    then have "filter (\<lambda>(k', a'). k' \<noteq> k) m = m"
      by (force simp: filter_id_conv image_iff)
    with True p show ?thesis
      by (simp add: store_delete_def store_size_def)
  next
    case False
    with Cons.prems p have "distinct (map fst m)" and "store_get m k = Some a"
      by (simp_all add: store_get_def)
    from Cons.IH [OF this] False p have "int (length (filter (\<lambda>(k', a'). k' \<noteq> k) m)) = int (length m) - 1"
      by (simp add: store_delete_def store_size_def)
    moreover from \<open>store_get m k = Some a\<close> have "m \<noteq> []"
      by (auto simp: store_get_def)
    ultimately show ?thesis using False p
      by (simp add: store_delete_def store_size_def)
  qed
qed

lemma closeSession_sessions:
  "store_get (sessions w) i = Some a \<Longrightarrow>
   sessions (closeSession i w) = store_delete i (sessions w) \<and> pending (closeSession i w) = pending w"
  by (simp add: closeSession_def modify_def Let_def)

lemma createSession_full:
  "maxSessions config \<le> store_size (sessions w)
   \<Longrightarrow> createSession config backend options w = (Inl (MAX_SESSIONS_REACHED (maxSessions config)), w)"
  by (simp add: createSession_def)

lemma createSession_not_full:
  "store_size (sessions w) < maxSessions config
   \<Longrightarrow> fst (createSession config backend options w) \<noteq> Inl (MAX_SESSIONS_REACHED m)"
  by (auto simp: createSession_def Let_def split: prod.splits option.splits if_splits)

lemma store_delete_absent: "k \<notin> set (map fst m) \<Longrightarrow> store_delete k m = m"
  by (force simp: store_delete_def filter_id_conv image_iff)

lemma store_set_keys: "set (map fst (store_set k a m)) = insert k (set (map fst m))"
  by (force simp: store_set_def image_iff split: if_splits)

lemma deliver_bystander:
  assumes "bystander ids w0 e" and "set (map fst (sessions v)) \<subseteq> set ids"
    and "\<forall>a<nextAddr w0. sid (heap v a) = sid (heap w0 a)"
  shows "sessions (deliver v e) = sessions v \<and> (\<forall>a. sid (heap (deliver v e) a) = sid (heap v a))
     \<and> pending (deliver v e) = pending v \<and> nextAddr (deliver v e) = nextAddr v
     \<and> uuidCount (deliver v e) = uuidCount v"
proof (cases e)
  case (PtyData a data)
  then show ?thesis
    by (simp add: handleOutput_def modify_def Let_def)
next
  case (PtyExit a code)
  with assms(1) have "a < nextAddr w0" and "sid (heap w0 a) \<notin> set ids"
    by (simp_all add: bystander_def)
  with assms(2,3) have "sid (heap v a) \<notin> set (map fst (sessions v))"
    by auto
  then have "store_delete (sid (heap v a)) (sessions v) = sessions v"
    by (rule store_delete_absent)
  with PtyExit show ?thesis
    by (simp add: handleExit_def modify_def Let_def)
next
  case (CloseSession i)
  with assms(1,2) have "i \<notin> set (map fst (sessions v))"
    by (auto simp: bystander_def)
  then have "store_get (sessions v) i = None"
    by (simp add: store_get_None)
  with CloseSession show ?thesis
    by (simp add: closeSession_def)
qed

lemma foldl_deliver_bystander:
  assumes "list_all (bystander ids w0) es" and "set (map fst (sessions v)) \<subseteq> set ids"
    and "\<forall>a<nextAddr w0. sid (heap v a) = sid (heap w0 a)"
  shows "sessions (foldl deliver v es) = sessions v
     \<and> (\<forall>a. sid (heap (foldl deliver v es) a) = sid (heap v a))
     \<and> pending (foldl deliver v es) = pending v \<and> nextAddr (foldl deliver v es) = nextAddr v
     \<and> uuidCount (foldl deliver v es) = uuidCount v"
  using assms
proof (induction es arbitrary: v)
  case Nil
  then show ?case by simp
next
  case (Cons e es)
  from Cons.prems have e: "bystander ids w0 e" and es: "list_all (bystander ids w0) es"
    by simp_all
  note d = deliver_bystander [OF e Cons.prems(2,3)]
  from d Cons.prems(2,3) have "set (map fst (sessions (deliver v e))) \<subseteq> set ids"
    and "\<forall>a<nextAddr w0. sid (heap (deliver v e) a) = sid (heap w0 a)"
    by simp_all
  from Cons.IH [OF es this] d show ?case
    by simp
qed

lemma sleep_bystander:
  assumes "list_all (\<lambda>tick. list_all (bystander ids w0) (snd tick)) (pending v)"
    and "set (map fst (sessions v)) \<subseteq> set ids"
    and "\<forall>a<nextAddr w0. sid (heap v a) = sid (heap w0 a)"
  shows "sessions (sleep ms v) = sessions v
     \<and> (\<forall>a. sid (heap (sleep ms v) a) = sid (heap v a))
     \<and> nextAddr (sleep ms v) = nextAddr v \<and> uuidCount (sleep ms v) = uuidCount v
     \<and> list_all (\<lambda>tick. list_all (bystander ids w0) (snd tick)) (pending (sleep ms v))"
proof (cases "pending v")
  case Nil
  then show ?thesis
    by (simp add: sleep_def)
next
  case (Cons t rest)
  obtain extra events where t: "t = (extra, events)"
    by (cases t)
  let ?v = "v\<lparr>clock := clock v + ms + extra, pending := rest\<rparr>"
  from assms(1) Cons t have ev: "list_all (bystander ids w0) events"
    and rest: "list_all (\<lambda>tick. list_all (bystander ids w0) (snd tick)) rest"
    by simp_all
  from assms(2,3) have "set (map fst (sessions ?v)) \<subseteq> set ids"
    and "\<forall>a<nextAddr w0. sid (heap ?v a) = sid (heap w0 a)"
    by simp_all
  from foldl_deliver_bystander [OF ev this] rest Cons t show ?thesis
    by (simp add: sleep_def)
qed

lemma createSession_registers:
  assumes "undisturbed ids w" and "set (map fst (sessions w)) \<subseteq> set ids"
    and "createSession config backend options w = (Inr a, w')"
  shows "sessions w' = store_set (requestedId options w) a (sessions w)
     \<and> store_get (sessions w) (requestedId options w) = None
     \<and> nextAddr w \<le> nextAddr w'
     \<and> (\<forall>b<nextAddr w. sid (heap w' b) = sid (heap w b))"
proof -
  from assms(3) have nf: "\<not> maxSessions config \<le> store_size (sessions w)"
    by (auto simp: createSession_def)
  obtain i wi where ch: "(case o_id options of None \<Rightarrow> uuidv4 w
      | Some i \<Rightarrow> if i = [] then uuidv4 w else (i, w)) = (i, wi)"
    by (cases "(case o_id options of None \<Rightarrow> uuidv4 w
      | Some i \<Rightarrow> if i = [] then uuidv4 w else (i, w))")
  then have i: "i = requestedId options w"
    by (simp add: requestedId_def)
  from ch have wi: "sessions wi = sessions w" "pending wi = pending w" "heap wi = heap w"
    "nextAddr wi = nextAddr w"
    by (auto simp: uuidv4_def split: option.splits if_splits)
  from assms(3) nf ch have fresh: "store_get (sessions wi) i = None"
    by (auto simp: createSession_def Let_def split: if_splits)
  let ?w0 = "sleep 0 wi"
  from assms(1,2) wi
  have "list_all (\<lambda>tick. list_all (bystander ids w) (snd tick)) (pending wi)"
    and "set (map fst (sessions wi)) \<subseteq> set ids"
    and "\<forall>b<nextAddr w. sid (heap wi b) = sid (heap w b)"
    by (simp_all add: undisturbed_def)
  note s0 = sleep_bystander [OF this, of 0]
  let ?a = "nextAddr ?w0"
  from s0 wi have a: "?a = nextAddr w"
    by simp
  let ?session = "\<lparr>sid = i,
      sname = orElse (o_name options) (js ''session-'' @ take 8 i),
      written = [], killed = False, outputBuffer = [],
      maxBufferSize = configMaxBufferSize config, status = S_initializing,
      lastCommand = [], createdAt = clock ?w0, lastActivityAt = clock ?w0,
      cwd = orElse (o_cwd options) (getDefaultCwd backend), serror = None\<rparr>"
  let ?v0 = "?w0\<lparr>heap := (heap ?w0)(?a := ?session), nextAddr := Suc ?a\<rparr>"
  let ?v1 = "modify ?a (\<lambda>session. session\<lparr>status := S_ready\<rparr>) (sleep 500 ?v0)"
  from assms(3) nf ch fresh
  have "(Inr a, w') = (Inr ?a, ?v1\<lparr>sessions := store_set i ?a (sessions ?v1)\<rparr>)"
    by (simp add: createSession_def Let_def split: option.splits)
  then have w': "w' = ?v1\<lparr>sessions := store_set i ?a (sessions ?v1)\<rparr>" and aa: "a = ?a"
    by simp_all
  from s0 wi a
  have "list_all (\<lambda>tick. list_all (bystander ids w) (snd tick)) (pending ?v0)"
    and "set (map fst (sessions ?v0)) \<subseteq> set ids"
    and "\<forall>b<nextAddr w. sid (heap ?v0 b) = sid (heap w b)"
    using assms(2) by simp_all
  note s1 = sleep_bystander [OF this, of 500]
  from s1 s0 wi have "sessions (sleep 500 ?v0) = sessions w"
    by simp
  moreover from s1 s0 wi a have "\<forall>b<nextAddr w. sid (heap (sleep 500 ?v0) b) = sid (heap w b)"
    by simp
  moreover from s1 a have "nextAddr (sleep 500 ?v0) = Suc (nextAddr w)"
    by simp
  ultimately show ?thesis
    using w' aa a i fresh wi by (simp add: Let_def modify_def)
qed

text \<open>
  From a store that holds exactly the maximum, closing one of its sessions lets one
  creation through, and after it the next one is refused again, as long as what happens
  meanwhile, during the sleeps of the creation and between the two creations, leaves alone
  the sessions that remain and the id that is created: data from the pseudo-terminals,
  and exits and closes of other sessions, such as the exit of the pseudo-terminal that
  \<open>closeSession\<close> has just killed when its id is not the one created.
\<close>

lemma createSession_one_more:
  assumes "distinct (map fst (sessions w))" and "store_size (sessions w) = maxSessions config"
    and "store_get (sessions w) i = Some a0"
    and "ids = requestedId options (closeSession i w) # map fst (sessions (closeSession i w))"
    and "undisturbed ids (closeSession i w)"
    and "list_all (bystander ids (closeSession i w)) between"
  shows "(\<forall>m. fst (createSession config backend options (closeSession i w))
              \<noteq> Inl (MAX_SESSIONS_REACHED m))
     \<and> ((\<forall>p. createPty backend p = None)
           \<and> store_get (sessions (closeSession i w)) (requestedId options (closeSession i w)) = None
         \<longrightarrow> (\<exists>a w'. createSession config backend options (closeSession i w) = (Inr a, w')))
     \<and> (\<forall>a w'. createSession config backend options (closeSession i w) = (Inr a, w')
           \<longrightarrow> createSession config backend options' (foldl deliver w' between)
                 = (Inl (MAX_SESSIONS_REACHED (maxSessions config)), foldl deliver w' between))"
proof (intro conjI impI)
  let ?w1 = "closeSession i w"
  from assms(3) closeSession_sessions [of w i a0]
  have s1: "sessions ?w1 = store_delete i (sessions w)"
    by simp
  from assms(1-3) s1 have size1: "store_size (sessions ?w1) = maxSessions config - 1"
    by (simp add: store_delete_size)
  from assms(4) have keys: "set (map fst (sessions ?w1)) \<subseteq> set ids"
    by auto
  show "\<forall>m. fst (createSession config backend options ?w1) \<noteq> Inl (MAX_SESSIONS_REACHED m)"
    using size1 by (intro allI createSession_not_full) simp
  show "\<forall>a w'. createSession config backend options ?w1 = (Inr a, w')
           \<longrightarrow> createSession config backend options' (foldl deliver w' between)
                 = (Inl (MAX_SESSIONS_REACHED (maxSessions config)), foldl deliver w' between)"
  proof (intro allI impI)
    fix a w'
    assume c: "createSession config backend options ?w1 = (Inr a, w')"
    note r = createSession_registers [OF assms(5) keys c]
    from r have "store_size (sessions w') = store_size (sessions ?w1) + 1"
      by (simp add: store_set_new)
    with size1 have full: "store_size (sessions w') = maxSessions config"
      by simp
    from r have "sessions w' = store_set (requestedId options ?w1) a (sessions ?w1)"
      by simp
    then have "set (map fst (sessions w'))
        = insert (requestedId options ?w1) (set (map fst (sessions ?w1)))"
      by (simp only: store_set_keys)
    also from assms(4) have "\<dots> = set ids"
      by simp
    finally have "set (map fst (sessions w')) \<subseteq> set ids"
      by simp
    moreover from r have "\<forall>b<nextAddr ?w1. sid (heap w' b) = sid (heap ?w1 b)"
      by simp
    ultimately have "sessions (foldl deliver w' between) = sessions w'"
      using foldl_deliver_bystander [OF assms(6)] by blast
    with full have "maxSessions config \<le> store_size (sessions (foldl deliver w' between))"
      by simp
    then show "createSession config backend options' (foldl deliver w' between)
        = (Inl (MAX_SESSIONS_REACHED (maxSessions config)), foldl deliver w' between)"
      by (rule createSession_full)
  qed
  assume ok: "(\<forall>p. createPty backend p = None)
           \<and> store_get (sessions ?w1) (requestedId options ?w1) = None"
  obtain j wi where ch: "(case o_id options of None \<Rightarrow> uuidv4 ?w1
      | Some i \<Rightarrow> if i = [] then uuidv4 ?w1 else (i, ?w1)) = (j, wi)"
    by (cases "(case o_id options of None \<Rightarrow> uuidv4 ?w1
      | Some i \<Rightarrow> if i = [] then uuidv4 ?w1 else (i, ?w1))")
  then have "j = requestedId options ?w1" and "sessions wi = sessions ?w1"
    by (auto simp: requestedId_def uuidv4_def split: option.splits if_splits)
  with ok have "store_get (sessions wi) j = None"
    by simp
  with size1 ch ok show "\<exists>a w'. createSession config backend options ?w1 = (Inr a, w')"
    by (simp add: createSession_def Let_def)
qed

text \<open>
  \<open>createSession\<close> fails with \<open>MAX_SESSIONS_REACHED\<close> exactly when the store holds at least
  the configured maximum of sessions, and then it leaves the world as it found it: no
  pseudo-terminal is asked for and the store is not touched.
\<close>

lemma createSession_refusal:
  "((\<exists>m. fst (createSession config backend options w) = Inl (MAX_SESSIONS_REACHED m))
      \<longleftrightarrow> maxSessions config \<le> store_size (sessions w))
 \<and> (maxSessions config \<le> store_size (sessions w)
      \<longrightarrow> createSession config backend options w
            = (Inl (MAX_SESSIONS_REACHED (maxSessions config)), w))"
proof (intro conjI impI)
  show "(\<exists>m. fst (createSession config backend options w) = Inl (MAX_SESSIONS_REACHED m))
      \<longleftrightarrow> maxSessions config \<le> store_size (sessions w)"
    using createSession_full [of config w backend options]
      createSession_not_full [of w config backend options]
    by (cases "maxSessions config \<le> store_size (sessions w)") auto
next
  assume "maxSessions config \<le> store_size (sessions w)"
  then show "createSession config backend options w
            = (Inl (MAX_SESSIONS_REACHED (maxSessions config)), w)"
    by (rule createSession_full)
qed

text \<open>
  C6: the claim fails when the id of the closed session is used again. The manager has
  capacity 1 and holds the session \<open>default\<close>, so it is full. \<open>closeSession\<close> kills the
  pseudo-terminal of \<open>default\<close> and removes the entry; \<open>createSession\<close> then creates a new
  session \<open>default\<close>, at address 1, and the store is full again: a further creation would
  be refused. Now the killed pseudo-terminal reports its exit. \<open>handleExit\<close> deletes the
  entry of the id of the old session, which by now is the entry of the new one: the store
  is empty although the new session is ready and its pseudo-terminal has not been killed,
  and a second further creation succeeds instead of failing with \<open>MAX_SESSIONS_REACHED\<close>.
\<close>

theorem createSession_stale_exit:
  "store_size (sessions (oneSession S_ready)) = maxSessions capacityOne
   \<and> createSession capacityOne okBackend (namedOptions (js ''default''))
         (closeSession (js ''default'') (oneSession S_ready)) = (Inr 1, reopenedWorld)
   \<and> killed (heap reopenedWorld 0) \<and> sid (heap reopenedWorld 0) = js ''default''
   \<and> sessions reopenedWorld = [(js ''default'', 1)]
   \<and> fst (createSession capacityOne okBackend (namedOptions (js ''third'')) reopenedWorld)
       = Inl (MAX_SESSIONS_REACHED 1)
   \<and> sessions staleExitWorld = []
   \<and> status (heap staleExitWorld 1) = S_ready \<and> \<not> killed (heap staleExitWorld 1)
   \<and> fst (createSession capacityOne okBackend (namedOptions (js ''third'')) staleExitWorld)
       = Inr 2"
  by (simp add: world_eval js_eval cong: let_weak_cong prod.case_cong_weak)

section \<open>Properties of the buffers and of the poller\<close>

lemma handleOutput_bounded:
  "0 < maxBufferSize (heap w a)
   \<Longrightarrow> int (length (outputBuffer (heap (handleOutput a data w) a)))
       \<le> maxBufferSize (heap (handleOutput a data w) a)"
  by (auto simp: handleOutput_def modify_def Let_def slice_from_def)

lemma readPosition_step:
  "readPosition p \<le> int (length (p_outputBuffer p))
   \<Longrightarrow> readPosition (procStep maxBuf p e) \<le> int (length (p_outputBuffer (procStep maxBuf p e)))"
  by (cases e)
    (auto simp: outputListener_def pollRecord_def stopRecord_def completeRecord_def
      startCatch_def slice_from_def Let_def split: outcome.splits if_splits)

lemma readPosition_invariant:
  "readPosition (foldl (procStep maxBuf) (newProcess i s c n t) es)
   \<le> int (length (p_outputBuffer (foldl (procStep maxBuf) (newProcess i s c n t) es)))"
  by (induction es rule: rev_induct) (simp_all add: newProcess_def readPosition_step)

lemma terminal_step: "terminal (p_status p) \<Longrightarrow> terminal (p_status (procStep maxBuf p e))"
  by (cases e)
    (auto simp: terminal_def outputListener_def pollRecord_def stopRecord_def completeRecord_def
      startCatch_def Let_def split: outcome.splits if_splits prod.splits)

text \<open>
  C4: with a configured maximum of 0, \<open>handleOutput\<close> does not cut the buffer: the test
  \<open>length > maxBufferSize\<close> holds, but \<open>slice(-0)\<close> is \<open>slice(0)\<close>, the whole string. After
  the append of one character to the empty buffer of such a session the buffer holds one
  character, more than the maximum. (For a positive maximum the bound holds,
  \<open>handleOutput_bounded\<close>, and the read position of a background process never passes
  the length of its buffer, \<open>readPosition_invariant\<close>.)
\<close>

theorem handleOutput_zero_limit:
  "maxBufferSize (heap zeroLimit 0) = 0
   \<and> outputBuffer (heap zeroLimit 0) = []
   \<and> outputBuffer (heap (handleOutput 0 (js ''a'') zeroLimit) 0) = js ''a''
   \<and> maxBufferSize (heap (handleOutput 0 (js ''a'') zeroLimit) 0) = 0"
  by (simp add: zeroLimit_def world_eval js_eval)

text \<open>
  C7, as the claim states it, fails: \<open>stopProcess\<close> sets the status without looking at
  it. The record of a process that has completed is marked \<open>stopped\<close> by a later
  \<open>stopProcess\<close>.
\<close>

theorem stopProcess_leaves_completed:
  "p_status (procs donePoller 0) = P_completed
   \<and> p_status (procs (fst (stopProcess (js ''p1'') 3000 donePoller (oneSession S_ready))) 0)
       = P_stopped"
  by (simp add: donePoller_def stopProcess_def makeProcess_def newProcess_def okResult_def
      completeRecord_def stopRecord_def js_eval)

text \<open>
  C7, as the code has it. The output listener and \<open>poll\<close> never change the status;
  \<open>stopProcess\<close> sets \<open>stopped\<close>, the completion handler sets \<open>completed\<close> or \<open>error\<close> and the
  handler of a failed start sets \<open>error\<close>, each whatever the status was. So nothing ever
  sets \<open>running\<close> or \<open>paused\<close>, and a record in one of the three terminal states stays in
  one of the three, through any sequence of operations, though not always in the same one.
\<close>

theorem status_transitions:
  "p_status (procStep maxBuf p (Output t d)) = p_status p
   \<and> p_status (procStep maxBuf p (Poll t inc)) = p_status p
   \<and> p_status (procStep maxBuf p (Stop t)) = P_stopped
   \<and> p_status (procStep maxBuf p (Finished t oc))
       = (case oc of Returned r \<Rightarrow> if r_success r then P_completed else P_error
          | Threw m \<Rightarrow> P_error)
   \<and> p_status (procStep maxBuf p (StartFailed t m)) = P_error
   \<and> (terminal (p_status p) \<longrightarrow> terminal (p_status (foldl (procStep maxBuf) p es)))"
proof -
  have "terminal (p_status p) \<longrightarrow> terminal (p_status (foldl (procStep maxBuf) p es))"
    by (induction es rule: rev_induct) (simp_all add: terminal_step)
  then show ?thesis
    by (auto simp: outputListener_def pollRecord_def stopRecord_def completeRecord_def
      startCatch_def Let_def split: outcome.splits if_splits prod.splits)
qed

theorem status_transitions_witness:
  "terminal (p_status (procs donePoller 0))
   \<and> terminal (p_status (foldl (procStep 1024) (procs donePoller 0)
        [Stop 3000, Poll 3100 True, Finished 3200 (Threw (js ''gone''))]))"
proof -
  have h: "terminal (p_status (procs donePoller 0))"
    by (simp add: terminal_def donePoller_def makeProcess_def newProcess_def okResult_def
        completeRecord_def)
  with status_transitions [of 1024 "procs donePoller 0" _ _ _ _ _
      "[Stop 3000, Poll 3100 True, Finished 3200 (Threw (js ''gone''))]"]
  show ?thesis
    by blast
qed

end
